theory Spec2Isabelle
  imports Complex_Main
begin

section \<open>Conventions\<close>

text \<open>
  The simulations compute with Python floats.  The embedding reads every float as a
  \<^typ>\<open>real\<close>: the theorems are about the arithmetic the code writes down, computed
  exactly, and say nothing about rounding.  A Python exception is a value of
  \<open>py_error\<close>; a function that can raise returns \<open>py_error + state\<close>.

  Several source files use the same attribute and method names (\<open>m1\<close>, \<open>dt\<close>,
  \<open>update_physics\<close>, \<open>reset_simulation\<close>).  Each name carries a prefix for its file:
  \<open>ec\<close> for \<open>elastic_collision.py\<close>, \<open>aw\<close> for \<open>atwood_machine.py\<close>, \<open>rb\<close> for
  \<open>rigid_body_rotation.py\<close>, \<open>ff\<close> for \<open>free_fall_simulation.py\<close>, \<open>ld\<close> for
  \<open>snap_line.py\<close> and \<open>shm\<close> for \<open>SHO.py\<close>.
\<close>

datatype py_error = ZeroDivisionError | IndexError | ValueError | KeyError

section \<open>elastic\_collision.py\<close>

record elastic =
  ec_m1 :: real
  ec_m2 :: real
  ec_v1 :: real
  ec_v2 :: real
  ec_wall_left :: real
  ec_wall_right :: real
  ec_block_width :: real
  ec_block_height :: real
  ec_x1_init :: real
  ec_x2_init :: real
  ec_dt :: real
  ec_t_max :: real
  ec_frame_skip :: nat
  ec_x1 :: real
  ec_x2 :: real
  ec_current_v1 :: real
  ec_current_v2 :: real
  ec_t :: real
  ec_last_collision_time :: real
  ec_collision_cooldown :: real
  ec_is_paused :: bool

text \<open>\<open>reset_simulation\<close>: the current state is taken from the parameters.\<close>

definition ec_reset_simulation :: "elastic \<Rightarrow> elastic" where
  "ec_reset_simulation s =
     s\<lparr>ec_x1 := ec_x1_init s,
       ec_x2 := ec_x2_init s,
       ec_current_v1 := ec_v1 s,
       ec_current_v2 := ec_v2 s,
       ec_t := 0,
       ec_last_collision_time := - 1,
       ec_collision_cooldown := 1 / 10\<rparr>"

text \<open>
  \<open>setup_parameters\<close> assigns the constants and calls \<open>reset_simulation\<close>; the
  attributes that only \<open>reset_simulation\<close> creates are written here with the values it
  gives them.  \<open>is_paused\<close> is the value \<open>setup_plot\<close> assigns.
\<close>

definition ec_setup_parameters :: elastic where
  "ec_setup_parameters =
     ec_reset_simulation
       \<lparr>ec_m1 = 1, ec_m2 = 2, ec_v1 = 2, ec_v2 = - 1,
        ec_wall_left = - 5, ec_wall_right = 5,
        ec_block_width = 1 / 2, ec_block_height = 1 / 2,
        ec_x1_init = - 2, ec_x2_init = 2,
        ec_dt = 1 / 100, ec_t_max = 20, ec_frame_skip = 2,
        ec_x1 = - 2, ec_x2 = 2, ec_current_v1 = 2, ec_current_v2 = - 1,
        ec_t = 0, ec_last_collision_time = - 1, ec_collision_cooldown = 1 / 10,
        ec_is_paused = False\<rparr>"

text \<open>\<open>update_params\<close> copies the four slider values.\<close>

definition ec_update_params :: "real \<Rightarrow> real \<Rightarrow> real \<Rightarrow> real \<Rightarrow> elastic \<Rightarrow> elastic" where
  "ec_update_params sm1 sm2 sv1 sv2 s = s\<lparr>ec_m1 := sm1, ec_m2 := sm2, ec_v1 := sv1, ec_v2 := sv2\<rparr>"

text \<open>\<open>reset\<close>, the callback of the Reset button.\<close>

definition ec_reset :: "elastic \<Rightarrow> elastic" where
  "ec_reset s = (ec_reset_simulation s)\<lparr>ec_is_paused := False\<rparr>"

text \<open>
  \<open>update_positions\<close> is one method; the model follows its commented blocks in order.
  First block: positions and time advance.
\<close>

definition ec_advance :: "elastic \<Rightarrow> elastic" where
  "ec_advance s =
     s\<lparr>ec_x1 := ec_x1 s + ec_current_v1 s * ec_dt s,
       ec_x2 := ec_x2 s + ec_current_v2 s * ec_dt s,
       ec_t := ec_t s + ec_dt s\<rparr>"

text \<open>Second and third block: the wall checks of block 1 and of block 2.\<close>

definition ec_wall_block1 :: "elastic \<Rightarrow> elastic" where
  "ec_wall_block1 s =
     (if ec_x1 s - ec_block_width s / 2 \<le> ec_wall_left s
      then s\<lparr>ec_x1 := ec_wall_left s + ec_block_width s / 2,
             ec_current_v1 := - ec_current_v1 s\<rparr>
      else if ec_x1 s + ec_block_width s / 2 \<ge> ec_wall_right s
      then s\<lparr>ec_x1 := ec_wall_right s - ec_block_width s / 2,
             ec_current_v1 := - ec_current_v1 s\<rparr>
      else s)"

definition ec_wall_block2 :: "elastic \<Rightarrow> elastic" where
  "ec_wall_block2 s =
     (if ec_x2 s - ec_block_width s / 2 \<le> ec_wall_left s
      then s\<lparr>ec_x2 := ec_wall_left s + ec_block_width s / 2,
             ec_current_v2 := - ec_current_v2 s\<rparr>
      else if ec_x2 s + ec_block_width s / 2 \<ge> ec_wall_right s
      then s\<lparr>ec_x2 := ec_wall_right s - ec_block_width s / 2,
             ec_current_v2 := - ec_current_v2 s\<rparr>
      else s)"

text \<open>
  Fourth block.  \<open>ec_collides\<close> is the conjunction of the two nested conditions under
  which the velocities are resolved: close enough, cooldown over, and approaching.
\<close>

definition ec_collides :: "elastic \<Rightarrow> bool" where
  "ec_collides s \<longleftrightarrow>
     \<bar>ec_x1 s - ec_x2 s\<bar> \<le> ec_block_width s
     \<and> ec_t s - ec_last_collision_time s > ec_collision_cooldown s
     \<and> ((ec_x1 s < ec_x2 s \<and> ec_current_v1 s - ec_current_v2 s > 0)
        \<or> (ec_x1 s > ec_x2 s \<and> ec_current_v1 s - ec_current_v2 s < 0))"

definition ec_separate :: "elastic \<Rightarrow> elastic" where
  "ec_separate s =
     (let overlap = ec_block_width s - \<bar>ec_x1 s - ec_x2 s\<bar>
      in if ec_x1 s < ec_x2 s
         then s\<lparr>ec_x1 := ec_x1 s - overlap / 2, ec_x2 := ec_x2 s + overlap / 2\<rparr>
         else s\<lparr>ec_x1 := ec_x1 s + overlap / 2, ec_x2 := ec_x2 s - overlap / 2\<rparr>)"

text \<open>
  The two divisions by \<open>m1 + m2\<close> raise when the sum is zero; the sliders keep both
  masses in \<open>[0.1, 5]\<close>.
\<close>

definition ec_block_collision :: "elastic \<Rightarrow> py_error + elastic" where
  "ec_block_collision s =
     (if ec_collides s
      then (let s' = ec_separate s
            in if ec_m1 s' + ec_m2 s' = 0 then Inl ZeroDivisionError
               else
                 (let v1_new = ((ec_m1 s' - ec_m2 s') * ec_current_v1 s'
                                 + 2 * ec_m2 s' * ec_current_v2 s') / (ec_m1 s' + ec_m2 s');
                      v2_new = ((ec_m2 s' - ec_m1 s') * ec_current_v2 s'
                                 + 2 * ec_m1 s' * ec_current_v1 s') / (ec_m1 s' + ec_m2 s')
                  in Inr (s'\<lparr>ec_current_v1 := v1_new,
                              ec_current_v2 := v2_new,
                              ec_last_collision_time := ec_t s'\<rparr>)))
      else Inr s)"

definition ec_walls :: "elastic \<Rightarrow> elastic" where
  "ec_walls s = ec_wall_block2 (ec_wall_block1 s)"

definition ec_update_positions :: "elastic \<Rightarrow> py_error + elastic" where
  "ec_update_positions s = ec_block_collision (ec_walls (ec_advance s))"

text \<open>\<open>for _ in range(n): self.update_positions()\<close>; an exception ends the loop.\<close>

fun ec_steps :: "nat \<Rightarrow> elastic \<Rightarrow> py_error + elastic" where
  "ec_steps 0 s = Inr s"
| "ec_steps (Suc n) s =
     (case ec_update_positions s of Inl e \<Rightarrow> Inl e | Inr s' \<Rightarrow> ec_steps n s')"

text \<open>The physics part of \<open>update_animation\<close>; the rest of the method only draws.\<close>

definition ec_update_animation :: "elastic \<Rightarrow> py_error + elastic" where
  "ec_update_animation s = (if \<not> ec_is_paused s then ec_steps (ec_frame_skip s) s else Inr s)"

text \<open>Total momentum of the two blocks.\<close>

definition ec_momentum :: "elastic \<Rightarrow> real" where
  "ec_momentum s = ec_m1 s * ec_current_v1 s + ec_m2 s * ec_current_v2 s"

text \<open>Both blocks lie between the walls.\<close>

definition ec_contained :: "elastic \<Rightarrow> bool" where
  "ec_contained s \<longleftrightarrow>
     ec_wall_left s \<le> ec_x1 s - ec_block_width s / 2
     \<and> ec_x1 s + ec_block_width s / 2 \<le> ec_wall_right s
     \<and> ec_wall_left s \<le> ec_x2 s - ec_block_width s / 2
     \<and> ec_x2 s + ec_block_width s / 2 \<le> ec_wall_right s"

text \<open>
  The state of a run in which nothing has been hit yet: \<open>n\<close> micro-steps of free motion
  after a reset with the default masses and initial velocities \<open>a\<close> and \<open>b\<close>.
\<close>

definition ec_free :: "real \<Rightarrow> real \<Rightarrow> nat \<Rightarrow> elastic" where
  "ec_free a b n =
     (ec_reset (ec_update_params 1 2 a b ec_setup_parameters))
       \<lparr>ec_x1 := - 2 + a * real n / 100,
        ec_x2 := 2 + b * real n / 100,
        ec_t := real n / 100\<rparr>"

section \<open>atwood\_machine.py\<close>

record atwood =
  aw_dt :: real
  aw_t_max :: real
  aw_m1 :: real
  aw_m2 :: real
  aw_g :: real
  aw_pulley_radius :: real
  aw_string_length :: real
  aw_y1_0 :: real
  aw_y2_0 :: real
  aw_current_time :: real
  aw_y1 :: real
  aw_y2 :: real
  aw_v1 :: real
  aw_v2 :: real
  aw_acceleration :: real
  aw_tension :: real
  aw_time_history :: "real list"
  aw_y1_history :: "real list"
  aw_y2_history :: "real list"
  aw_v1_history :: "real list"
  aw_v2_history :: "real list"
  aw_paused :: bool

text \<open>\<open>reset_simulation\<close>; both quotients raise when \<open>m1 + m2 = 0\<close>.\<close>

definition aw_reset_simulation :: "atwood \<Rightarrow> py_error + atwood" where
  "aw_reset_simulation s =
     (if aw_m1 s + aw_m2 s = 0 then Inl ZeroDivisionError
      else Inr (s\<lparr>aw_current_time := 0,
                  aw_y1 := aw_y1_0 s,
                  aw_y2 := aw_y2_0 s,
                  aw_v1 := 0,
                  aw_v2 := 0,
                  aw_acceleration := (aw_m2 s - aw_m1 s) * aw_g s / (aw_m1 s + aw_m2 s),
                  aw_tension := 2 * aw_m1 s * aw_m2 s * aw_g s / (aw_m1 s + aw_m2 s),
                  aw_time_history := [],
                  aw_y1_history := [],
                  aw_y2_history := [],
                  aw_v1_history := [],
                  aw_v2_history := []\<rparr>))"

text \<open>
  \<open>setup_parameters\<close>, with \<open>paused\<close> as \<open>setup_plot\<close> assigns it.  The attributes
  that \<open>reset_simulation\<close> creates are overwritten by it.
\<close>

definition aw_setup_parameters :: "py_error + atwood" where
  "aw_setup_parameters =
     aw_reset_simulation
       \<lparr>aw_dt = 2 / 100, aw_t_max = 10, aw_m1 = 1, aw_m2 = 2, aw_g = 981 / 100,
        aw_pulley_radius = 3 / 10, aw_string_length = 4,
        aw_y1_0 = 3 / 2, aw_y2_0 = - (3 / 2),
        aw_current_time = 0, aw_y1 = 0, aw_y2 = 0, aw_v1 = 0, aw_v2 = 0,
        aw_acceleration = 0, aw_tension = 0,
        aw_time_history = [], aw_y1_history = [], aw_y2_history = [],
        aw_v1_history = [], aw_v2_history = [], aw_paused = False\<rparr>"

text \<open>\<open>update_parameters\<close>: the three slider values, then a reset.\<close>

definition aw_update_parameters :: "real \<Rightarrow> real \<Rightarrow> real \<Rightarrow> atwood \<Rightarrow> py_error + atwood" where
  "aw_update_parameters sm1 sm2 slen s =
     aw_reset_simulation (s\<lparr>aw_m1 := sm1, aw_m2 := sm2, aw_string_length := slen\<rparr>)"

text \<open>
  \<open>update_physics\<close>, block by block.  Velocities first, then positions with the new
  velocities.
\<close>

definition aw_euler :: "atwood \<Rightarrow> atwood" where
  "aw_euler s =
     (let v1 = aw_v1 s + aw_acceleration s * aw_dt s;
          v2 = aw_v2 s - aw_acceleration s * aw_dt s
      in s\<lparr>aw_v1 := v1, aw_v2 := v2,
            aw_y1 := aw_y1 s + v1 * aw_dt s,
            aw_y2 := aw_y2 s + v2 * aw_dt s\<rparr>)"

text \<open>The string constraint.\<close>

definition aw_constraint :: "atwood \<Rightarrow> atwood" where
  "aw_constraint s =
     (let current_separation = \<bar>aw_y1 s - aw_y2 s\<bar>
      in if current_separation > aw_string_length s
         then (let midpoint = (aw_y1 s + aw_y2 s) / 2
               in if aw_y1 s > aw_y2 s
                  then s\<lparr>aw_y1 := midpoint + aw_string_length s / 2,
                         aw_y2 := midpoint - aw_string_length s / 2\<rparr>
                  else s\<lparr>aw_y1 := midpoint - aw_string_length s / 2,
                         aw_y2 := midpoint + aw_string_length s / 2\<rparr>)
         else s)"

text \<open>Time, the five histories, and the cap of 500 entries (\<open>pop(0)\<close>).\<close>

definition aw_record :: "atwood \<Rightarrow> atwood" where
  "aw_record s =
     (let s = s\<lparr>aw_current_time := aw_current_time s + aw_dt s\<rparr>;
          s = s\<lparr>aw_time_history := aw_time_history s @ [aw_current_time s],
                aw_y1_history := aw_y1_history s @ [aw_y1 s],
                aw_y2_history := aw_y2_history s @ [aw_y2 s],
                aw_v1_history := aw_v1_history s @ [aw_v1 s],
                aw_v2_history := aw_v2_history s @ [aw_v2 s]\<rparr>
      in if length (aw_time_history s) > 500
         then s\<lparr>aw_time_history := tl (aw_time_history s),
                aw_y1_history := tl (aw_y1_history s),
                aw_y2_history := tl (aw_y2_history s),
                aw_v1_history := tl (aw_v1_history s),
                aw_v2_history := tl (aw_v2_history s)\<rparr>
         else s)"

definition aw_update_physics :: "atwood \<Rightarrow> atwood" where
  "aw_update_physics s = aw_record (aw_constraint (aw_euler s))"

text \<open>The physics part of \<open>animate_frame\<close>; the rest of the method only draws.\<close>

definition aw_animate_frame :: "atwood \<Rightarrow> atwood" where
  "aw_animate_frame s =
     (if \<not> aw_paused s \<and> aw_current_time s < aw_t_max s then aw_update_physics s else s)"

definition aw_midpoint :: "atwood \<Rightarrow> real" where
  "aw_midpoint s = (aw_y1 s + aw_y2 s) / 2"

definition aw_separation :: "atwood \<Rightarrow> real" where
  "aw_separation s = \<bar>aw_y1 s - aw_y2 s\<bar>"

section \<open>rigid\_body\_rotation.py and free\_fall\_simulation.py\<close>

text \<open>
  Both files define a class \<open>RigidBodyRotation\<close> with the same attributes.  The keys of
  \<open>object_types\<close>, which are also the labels of the radio buttons, are a datatype.
\<close>

datatype object_type = Disk | Ring | Rod | Sphere

fun I_factor :: "object_type \<Rightarrow> real" where
  "I_factor Disk = 1 / 2"
| "I_factor Ring = 1"
| "I_factor Rod = 1 / 3"
| "I_factor Sphere = 2 / 5"

record rigid =
  rb_dt :: real
  rb_t_max :: real
  rb_mass :: real
  rb_radius :: real
  rb_torque :: real
  rb_moment_of_inertia :: real
  rb_current_type :: object_type
  rb_theta :: real
  rb_omega :: real
  rb_alpha :: real
  rb_current_time :: real
  rb_time_history :: "real list"
  rb_theta_history :: "real list"
  rb_omega_history :: "real list"
  rb_alpha_history :: "real list"
  rb_paused :: bool

text \<open>The moment of inertia, computed the same way in both files.\<close>

definition moment_of_inertia_of :: "rigid \<Rightarrow> real" where
  "moment_of_inertia_of s =
     (if rb_current_type s = Rod
      then (1 / 3) * rb_mass s * (2 * rb_radius s) ^ 2
      else I_factor (rb_current_type s) * rb_mass s * (rb_radius s) ^ 2)"

definition rb_clear :: "rigid \<Rightarrow> rigid" where
  "rb_clear s =
     s\<lparr>rb_time_history := [], rb_theta_history := [],
       rb_omega_history := [], rb_alpha_history := []\<rparr>"

text \<open>\<open>reset_simulation\<close> of \<open>rigid_body_rotation.py\<close> divides unconditionally.\<close>

definition rb_reset_simulation :: "rigid \<Rightarrow> py_error + rigid" where
  "rb_reset_simulation s =
     (let s = s\<lparr>rb_current_time := 0, rb_theta := 0, rb_omega := 0\<rparr>;
          s = s\<lparr>rb_moment_of_inertia := moment_of_inertia_of s\<rparr>
      in if rb_moment_of_inertia s = 0 then Inl ZeroDivisionError
         else Inr (rb_clear (s\<lparr>rb_alpha := rb_torque s / rb_moment_of_inertia s\<rparr>)))"

text \<open>\<open>reset_simulation\<close> of \<open>free_fall_simulation.py\<close> guards the division.\<close>

definition ff_reset_simulation :: "rigid \<Rightarrow> rigid" where
  "ff_reset_simulation s =
     (let s = s\<lparr>rb_current_time := 0, rb_theta := 0, rb_omega := 0\<rparr>;
          s = s\<lparr>rb_moment_of_inertia := moment_of_inertia_of s\<rparr>
      in rb_clear (s\<lparr>rb_alpha := (if rb_moment_of_inertia s > 0
                                     then rb_torque s / rb_moment_of_inertia s else 0)\<rparr>))"

text \<open>The attribute values of \<open>setup_parameters\<close> before it calls \<open>reset_simulation\<close>.\<close>

definition rigid_parameters :: rigid where
  "rigid_parameters =
     \<lparr>rb_dt = 2 / 100, rb_t_max = 10, rb_mass = 1, rb_radius = 1 / 2, rb_torque = 1,
      rb_moment_of_inertia = 0, rb_current_type = Disk,
      rb_theta = 0, rb_omega = 0, rb_alpha = 0, rb_current_time = 0,
      rb_time_history = [], rb_theta_history = [], rb_omega_history = [],
      rb_alpha_history = [], rb_paused = False\<rparr>"

definition rb_setup_parameters :: "py_error + rigid" where
  "rb_setup_parameters = rb_reset_simulation rigid_parameters"

definition ff_setup_parameters :: rigid where
  "ff_setup_parameters = ff_reset_simulation rigid_parameters"

text \<open>The histories and their cap, the same in both files.\<close>

definition rb_record :: "rigid \<Rightarrow> rigid" where
  "rb_record s =
     (let s = s\<lparr>rb_time_history := rb_time_history s @ [rb_current_time s],
                rb_theta_history := rb_theta_history s @ [rb_theta s],
                rb_omega_history := rb_omega_history s @ [rb_omega s],
                rb_alpha_history := rb_alpha_history s @ [rb_alpha s]\<rparr>
      in if length (rb_time_history s) > 500
         then s\<lparr>rb_time_history := tl (rb_time_history s),
                rb_theta_history := tl (rb_theta_history s),
                rb_omega_history := tl (rb_omega_history s),
                rb_alpha_history := tl (rb_alpha_history s)\<rparr>
         else s)"

text \<open>
  \<open>update_physics\<close> of \<open>rigid_body_rotation.py\<close>: the pause and time guard is inside
  the method, and the angle is stored as computed.
\<close>

definition rb_update_physics :: "rigid \<Rightarrow> rigid" where
  "rb_update_physics s =
     (if \<not> rb_paused s \<and> rb_current_time s < rb_t_max s
      then (let omega = rb_omega s + rb_alpha s * rb_dt s;
                theta = rb_theta s + omega * rb_dt s
            in rb_record (s\<lparr>rb_omega := omega, rb_theta := theta,
                             rb_current_time := rb_current_time s + rb_dt s\<rparr>))
      else s)"

definition rb_animate_frame :: "rigid \<Rightarrow> rigid" where
  "rb_animate_frame s = rb_update_physics s"

text \<open>
  Python's \<open>x % y\<close> on floats for a positive \<open>y\<close>: the result has the sign of \<open>y\<close>.
  It is used with \<open>y = 2 * pi\<close> only.
\<close>

definition py_fmod :: "real \<Rightarrow> real \<Rightarrow> real" where
  "py_fmod x y = x - y * of_int \<lfloor>x / y\<rfloor>"

text \<open>
  \<open>update_physics\<close> of \<open>free_fall_simulation.py\<close>: no guard inside, and the angle is
  reduced once it is above \<open>4 * pi\<close>.
\<close>

definition ff_update_physics :: "rigid \<Rightarrow> rigid" where
  "ff_update_physics s =
     (let omega = rb_omega s + rb_alpha s * rb_dt s;
          theta = rb_theta s + omega * rb_dt s;
          theta = (if theta > 4 * pi then py_fmod theta (2 * pi) else theta)
      in rb_record (s\<lparr>rb_omega := omega, rb_theta := theta,
                       rb_current_time := rb_current_time s + rb_dt s\<rparr>))"

definition ff_animate_frame :: "rigid \<Rightarrow> rigid" where
  "ff_animate_frame s =
     (if \<not> rb_paused s \<and> rb_current_time s < rb_t_max s then ff_update_physics s else s)"

section \<open>snap\_line.py\<close>

text \<open>
  A \<open>Line2D\<close> of the drawer always holds two points: \<open>xdata = [x0, x1]\<close> and
  \<open>ydata = [y0, y1]\<close>.  The curve is the pair of arrays \<open>x\<close> and \<open>y\<close> given to the
  constructor.  \<open>snap_target_index\<close> is 100 or a result of \<open>argmin\<close>, so it is a
  natural number.
\<close>

record line2d =
  xdata :: "real \<times> real"
  ydata :: "real \<times> real"

record line_drawer =
  ld_x :: "real list"
  ld_y :: "real list"
  ld_line :: "line2d option"
  ld_angle :: real
  ld_line_offset :: "real \<times> real"
  ld_snap_target_index :: nat

text \<open>\<open>move_line\<close>: the offset accumulates also when there is no line.\<close>

definition ld_move_line :: "real \<Rightarrow> real \<Rightarrow> line_drawer \<Rightarrow> line_drawer" where
  "ld_move_line dx dy s =
     (let s = (case ld_line s of
                 None \<Rightarrow> s
               | Some l \<Rightarrow>
                   s\<lparr>ld_line := Some \<lparr>xdata = (fst (xdata l) + dx, snd (xdata l) + dx),
                                        ydata = (fst (ydata l) + dy, snd (ydata l) + dy)\<rparr>\<rparr>)
      in s\<lparr>ld_line_offset := (fst (ld_line_offset s) + dx, snd (ld_line_offset s) + dy)\<rparr>)"

text \<open>
  \<open>snap\<close>: without a line it prints a message and returns.  Reading \<open>self.x[idx]\<close> or
  \<open>self.y[idx]\<close> beyond the array raises \<open>IndexError\<close>.
\<close>

definition ld_snap :: "line_drawer \<Rightarrow> py_error + line_drawer" where
  "ld_snap s =
     (case ld_line s of
        None \<Rightarrow> Inr s
      | Some l \<Rightarrow>
          (let idx = ld_snap_target_index s
           in if idx \<ge> length (ld_x s) \<or> idx \<ge> length (ld_y s) then Inl IndexError
              else
                (let x_targ = ld_x s ! idx;
                     y_targ = ld_y s ! idx;
                     mx = (fst (xdata l) + snd (xdata l)) / 2;
                     my = (fst (ydata l) + snd (ydata l)) / 2;
                     dx = x_targ - mx;
                     dy = y_targ - my
                 in Inr (s\<lparr>ld_line := Some \<lparr>xdata = (fst (xdata l) + dx, snd (xdata l) + dx),
                                              ydata = (fst (ydata l) + dy, snd (ydata l) + dy)\<rparr>,
                            ld_line_offset := (fst (ld_line_offset s) + dx,
                                               snd (ld_line_offset s) + dy)\<rparr>))))"

text \<open>
  The local function \<open>point_line_dist\<close> of \<open>trim\<close>, for one sample; \<open>np.clip(t, 0, 1)\<close>
  is \<open>min (max t 0) 1\<close>.  For a line of length zero numpy computes \<open>nan\<close> for every
  sample; the model is for lines of positive length, and the theorems about \<open>ld_trim\<close>
  assume one.
\<close>

definition point_line_dist :: "line2d \<Rightarrow> real \<Rightarrow> real \<Rightarrow> real" where
  "point_line_dist l xp yp =
     (let x0 = fst (xdata l); y0 = fst (ydata l);
          x1 = snd (xdata l); y1 = snd (ydata l);
          dx = x1 - x0;
          dy = y1 - y0;
          t = ((xp - x0) * dx + (yp - y0) * dy) / (dx ^ 2 + dy ^ 2);
          t = min (max t 0) 1;
          x_proj = x0 + t * dx;
          y_proj = y0 + t * dy
      in sqrt ((xp - x_proj) ^ 2 + (yp - y_proj) ^ 2))"

definition line_length :: "line2d \<Rightarrow> real" where
  "line_length l = sqrt ((snd (xdata l) - fst (xdata l)) ^ 2 + (snd (ydata l) - fst (ydata l)) ^ 2)"

definition line_direction :: "line2d \<Rightarrow> real \<times> real" where
  "line_direction l = (snd (xdata l) - fst (xdata l), snd (ydata l) - fst (ydata l))"

definition line_midpoint :: "line2d \<Rightarrow> real \<times> real" where
  "line_midpoint l = ((fst (xdata l) + snd (xdata l)) / 2, (fst (ydata l) + snd (ydata l)) / 2)"

text \<open>
  \<open>trim\<close>.  \<open>np.argsort\<close> is a parameter: numpy's default sort is not stable, so which
  index comes first among equal distances is not fixed by the source.  What the
  theorems need of it is \<open>is_argsort\<close>.  Arrays of different lengths either fail to
  broadcast (\<open>ValueError\<close>), or broadcast from length 1 and then fail at the index
  (\<open>IndexError\<close>), or give no distances at all, so that unpacking raises \<open>ValueError\<close>.
\<close>

definition is_argsort :: "(real list \<Rightarrow> nat list) \<Rightarrow> bool" where
  "is_argsort argsort \<longleftrightarrow>
     (\<forall>ds. distinct (argsort ds) \<and> set (argsort ds) = {0..<length ds}
        \<and> sorted (map ((!) ds) (argsort ds)))"

definition ld_trim :: "(real list \<Rightarrow> nat list) \<Rightarrow> line_drawer \<Rightarrow> py_error + line_drawer" where
  "ld_trim argsort s =
     (case ld_line s of
        None \<Rightarrow> Inr s
      | Some l \<Rightarrow>
          if length (ld_x s) \<noteq> length (ld_y s)
          then Inl (if (length (ld_x s) = 1 \<and> 2 \<le> length (ld_y s))
                       \<or> (length (ld_y s) = 1 \<and> 2 \<le> length (ld_x s))
                    then IndexError else ValueError)
          else
            (let dists = map2 (point_line_dist l) (ld_x s) (ld_y s);
                 idxs = take 2 (argsort dists)
             in case sort idxs of
                  [idx1, idx2] \<Rightarrow>
                    if idx2 \<ge> length (ld_x s) then Inl IndexError
                    else Inr (s\<lparr>ld_line := Some \<lparr>xdata = (ld_x s ! idx1, ld_x s ! idx2),
                                                   ydata = (ld_y s ! idx1, ld_y s ! idx2)\<rparr>\<rparr>)
                | _ \<Rightarrow> Inl ValueError))"

text \<open>A stable argsort, one instance of the parameter.\<close>

definition stable_argsort :: "real list \<Rightarrow> nat list" where
  "stable_argsort ds = sort_key ((!) ds) [0..<length ds]"

section \<open>SHO.py\<close>

text \<open>
  \<open>params\<close> and \<open>defaults\<close> are dictionaries from names to numbers; \<open>sliders\<close> is the
  dictionary of slider widgets, read here as the list of its keys with each slider's
  \<open>val\<close>, in insertion order.
\<close>

record shm =
  shm_params :: "string \<rightharpoonup> real"
  shm_sliders :: "(string \<times> real) list"
  shm_animating :: bool

definition defaults :: "(string \<times> real) list" where
  "defaults =
     [(''Amplitude'', 1), (''Mass'', 1), (''Spring Constant'', 1),
      (''Phase'', 0), (''Duration'', 10), (''FPS'', 60)]"

text \<open>The list literal in the condition of \<open>submit\<close>.\<close>

definition positive_keys :: "string list" where
  "positive_keys = [''Mass'', ''Spring Constant'', ''Duration'', ''FPS'']"

text \<open>\<open>self.sliders[key].set_val(v)\<close>.\<close>

definition set_val :: "string \<Rightarrow> real \<Rightarrow> (string \<times> real) list \<Rightarrow> (string \<times> real) list" where
  "set_val key v sl = map (\<lambda>(k, w). if k = key then (k, v) else (k, w)) sl"

text \<open>
  \<open>submit\<close> writes \<open>params\<close> and the sliders before it can raise, and the claim about
  it is about what it has written.  So the functions of this section return the state
  the call leaves behind together with the exception it raises, if any.

  The loop of \<open>submit\<close> over the keys of \<open>sliders\<close>.
\<close>

fun shm_submit_keys :: "string list \<Rightarrow> shm \<Rightarrow> shm \<times> py_error option" where
  "shm_submit_keys [] s = (s, None)"
| "shm_submit_keys (key # keys) s =
     (case map_of (shm_sliders s) key of
        None \<Rightarrow> (s, Some KeyError)
      | Some val \<Rightarrow>
          if key \<in> set positive_keys \<and> val \<le> 0
          then (case map_of defaults key of
                  None \<Rightarrow> (s, Some KeyError)
                | Some d \<Rightarrow>
                    shm_submit_keys keys
                      (s\<lparr>shm_sliders := set_val key d (shm_sliders s),
                         shm_params := (shm_params s)(key \<mapsto> d)\<rparr>))
          else shm_submit_keys keys (s\<lparr>shm_params := (shm_params s)(key \<mapsto> val)\<rparr>))"

text \<open>Python's \<open>int(x)\<close> on a float: truncation towards zero.\<close>

definition py_int :: "real \<Rightarrow> int" where
  "py_int x = (if 0 \<le> x then \<lfloor>x\<rfloor> else \<lceil>x\<rceil>)"

text \<open>
  \<open>compute_shm\<close> reads the six parameters and writes the sampled trajectory, the
  energies, the plot limits and the plot data, none of which is part of this state; the
  model is the exception it raises, if any.
  \<^item> A parameter that is missing raises \<open>KeyError\<close>.
  \<^item> \<open>k / m\<close> raises \<open>ZeroDivisionError\<close> for \<open>m = 0\<close> (the values read as Python
    floats).
  \<^item> With \<open>n = int(fps * duration)\<close>: a negative \<open>n\<close> makes \<open>np.linspace\<close> raise
    \<open>ValueError\<close>; \<open>n = 0\<close> gives empty arrays, and \<open>self.x.max()\<close> raises \<open>ValueError\<close>.
  \<^item> A negative \<open>k / m\<close> makes \<open>omega\<close> and with it every sample \<open>nan\<close>, and the plot
    limits \<open>nan\<close>, which \<open>set_ylim\<close> refuses with \<open>ValueError\<close>.
\<close>

definition compute_shm :: "shm \<Rightarrow> py_error option" where
  "compute_shm s =
     (case (shm_params s ''Amplitude'', shm_params s ''Mass'', shm_params s ''Spring Constant'',
            shm_params s ''Phase'', shm_params s ''Duration'', shm_params s ''FPS'') of
        (Some A, Some m, Some k, Some phi, Some duration, Some fps) \<Rightarrow>
          if m = 0 then Some ZeroDivisionError
          else if py_int (fps * duration) \<le> 0 then Some ValueError
          else if k / m < 0 then Some ValueError
          else None
      | _ \<Rightarrow> Some KeyError)"

text \<open>
  \<open>submit\<close>: the loop, then \<open>compute_shm\<close>, then the running animation is stopped.  An
  exception of \<open>compute_shm\<close> leaves \<open>animating\<close> as it was.
\<close>

definition shm_submit :: "shm \<Rightarrow> shm \<times> py_error option" where
  "shm_submit s =
     (case shm_submit_keys (map fst (shm_sliders s)) s of
        (s', Some e) \<Rightarrow> (s', Some e)
      | (s', None) \<Rightarrow>
          (case compute_shm s' of
             Some e \<Rightarrow> (s', Some e)
           | None \<Rightarrow> (s'\<lparr>shm_animating := False\<rparr>, None)))"

text \<open>
  The state in which \<open>submit\<close> finds the slider values \<open>vals\<close>, in the order of
  \<open>defaults\<close>, while the animation runs.
\<close>

definition shm_with_sliders :: "real list \<Rightarrow> shm" where
  "shm_with_sliders vals =
     \<lparr>shm_params = map_of defaults, shm_sliders = zip (map fst defaults) vals,
      shm_animating = True\<rparr>"

section \<open>States used in the examples\<close>

text \<open>The Atwood machine as \<open>setup_parameters\<close> leaves it.\<close>

definition aw_start :: atwood where
  "aw_start =
     \<lparr>aw_dt = 2 / 100, aw_t_max = 10, aw_m1 = 1, aw_m2 = 2, aw_g = 981 / 100,
      aw_pulley_radius = 3 / 10, aw_string_length = 4,
      aw_y1_0 = 3 / 2, aw_y2_0 = - (3 / 2),
      aw_current_time = 0, aw_y1 = 3 / 2, aw_y2 = - (3 / 2), aw_v1 = 0, aw_v2 = 0,
      aw_acceleration = 327 / 100, aw_tension = 1308 / 100,
      aw_time_history = [], aw_y1_history = [], aw_y2_history = [],
      aw_v1_history = [], aw_v2_history = [], aw_paused = False\<rparr>"

text \<open>The rotating disk as \<open>setup_parameters\<close> leaves it, in both files.\<close>

definition rb_disk_start :: rigid where
  "rb_disk_start = rigid_parameters\<lparr>rb_moment_of_inertia := 1 / 8, rb_alpha := 8\<rparr>"

text \<open>
  The angle that \<open>update_physics\<close> computes before any reduction:
  \<open>omega += alpha * dt; theta += omega * dt\<close>.
\<close>

definition next_theta :: "rigid \<Rightarrow> real" where
  "next_theta s = rb_theta s + (rb_omega s + rb_alpha s * rb_dt s) * rb_dt s"

section \<open>Line drawer: notions of the claims\<close>

text \<open>The line that \<open>snap\<close> stores, from the state and the line it found.\<close>

definition snapped :: "line_drawer \<Rightarrow> line2d \<Rightarrow> line2d" where
  "snapped s l =
     (let dx = ld_x s ! ld_snap_target_index s - (fst (xdata l) + snd (xdata l)) / 2;
          dy = ld_y s ! ld_snap_target_index s - (fst (ydata l) + snd (ydata l)) / 2
      in \<lparr>xdata = (fst (xdata l) + dx, snd (xdata l) + dx),
          ydata = (fst (ydata l) + dy, snd (ydata l) + dy)\<rparr>)"

text \<open>The distance of curve sample \<open>k\<close> to the line, as \<open>trim\<close> computes it.\<close>

definition sample_dist :: "line_drawer \<Rightarrow> line2d \<Rightarrow> nat \<Rightarrow> real" where
  "sample_dist s l k = point_line_dist l (ld_x s ! k) (ld_y s ! k)"

text \<open>Curve sample \<open>k\<close> as a point.\<close>

definition sample :: "line_drawer \<Rightarrow> nat \<Rightarrow> real \<times> real" where
  "sample s k = (ld_x s ! k, ld_y s ! k)"

text \<open>
  The distance of a point to the segment, in the words of the claim and without the
  formula of the code: \<open>seg_point l u\<close> for \<open>u\<close> from 0 to 1 are the points of the
  segment, \<open>euclid\<close> is the Euclidean distance, and \<open>d\<close> is the distance of \<open>p\<close> to the
  segment when some point of the segment is at distance \<open>d\<close> from \<open>p\<close> and none is
  nearer.
\<close>

definition seg_point :: "line2d \<Rightarrow> real \<Rightarrow> real \<times> real" where
  "seg_point l u =
     (fst (xdata l) + u * (snd (xdata l) - fst (xdata l)),
      fst (ydata l) + u * (snd (ydata l) - fst (ydata l)))"

definition euclid :: "real \<times> real \<Rightarrow> real \<times> real \<Rightarrow> real" where
  "euclid p q = sqrt ((fst p - fst q) ^ 2 + (snd p - snd q) ^ 2)"

definition is_segment_dist :: "line2d \<Rightarrow> real \<times> real \<Rightarrow> real \<Rightarrow> bool" where
  "is_segment_dist l p d \<longleftrightarrow>
     (\<exists>u. 0 \<le> u \<and> u \<le> 1 \<and> d = euclid p (seg_point l u))
     \<and> (\<forall>u. 0 \<le> u \<and> u \<le> 1 \<longrightarrow> d \<le> euclid p (seg_point l u))"

text \<open>The state after \<open>trim\<close> chose the samples \<open>i\<close> and \<open>j\<close>.\<close>

definition trimmed :: "line_drawer \<Rightarrow> nat \<Rightarrow> nat \<Rightarrow> line_drawer" where
  "trimmed s i j =
     s\<lparr>ld_line := Some \<lparr>xdata = (ld_x s ! i, ld_x s ! j), ydata = (ld_y s ! i, ld_y s ! j)\<rparr>\<rparr>"

text \<open>A drawer with a curve of four samples and a horizontal line.\<close>

definition ld_example :: line_drawer where
  "ld_example =
     \<lparr>ld_x = [1, 2, 5, 6], ld_y = [1, 0, 1, 1],
      ld_line = Some \<lparr>xdata = (0, 4), ydata = (0, 0)\<rparr>,
      ld_angle = 0, ld_line_offset = (0, 0), ld_snap_target_index = 2\<rparr>"

section \<open>SHM submit: the value the claim expects\<close>

text \<open>
  What \<open>params[key]\<close> should be after a submission in which the slider of \<open>key\<close> holds
  \<open>val\<close>: the default when the field must be positive and is not, the value otherwise.
\<close>

definition shm_accepted :: "string \<Rightarrow> real \<Rightarrow> real option" where
  "shm_accepted key val =
     (if key \<in> set positive_keys \<and> val \<le> 0 then map_of defaults key else Some val)"

section \<open>Elastic collision: lemmas\<close>

lemmas ec_defs =
  ec_update_positions_def ec_block_collision_def ec_walls_def ec_wall_block1_def
  ec_wall_block2_def ec_advance_def ec_collides_def ec_separate_def
  ec_reset_def ec_reset_simulation_def ec_update_params_def ec_setup_parameters_def

lemma ec_steps_add:
  "ec_steps (a + b) s = (case ec_steps a s of Inl e \<Rightarrow> Inl e | Inr s' \<Rightarrow> ec_steps b s')"
  by (induction a arbitrary: s) (auto split: sum.splits)

lemma ec_free_0: "ec_free a b 0 = ec_reset (ec_update_params 1 2 a b ec_setup_parameters)"
  by (simp add: ec_free_def ec_defs)

lemma ec_setup_is_free: "ec_setup_parameters = ec_free 2 (- 1) 0"
  by (simp add: ec_free_def ec_defs)

text \<open>With the default velocities the first 116 micro-steps are free motion.\<close>

lemma ec_default_free_step:
  assumes "real n < 116"
  shows "ec_update_positions (ec_free 2 (- 1) n) = Inr (ec_free 2 (- 1) (Suc n))"
  using assms by (simp add: ec_free_def ec_defs field_simps)

lemma ec_default_free_run:
  "k + n \<le> 116 \<Longrightarrow> ec_steps n (ec_free 2 (- 1) k) = Inr (ec_free 2 (- 1) (k + n))"
proof (induction n arbitrary: k)
  case 0
  then show ?case by simp
next
  case (Suc n)
  have "real k < 116" using Suc.prems by simp
  then show ?case using Suc.IH [of "Suc k"] Suc.prems by (simp add: ec_default_free_step)
qed

lemma ec_default_before:
  "ec_steps 116 ec_setup_parameters = Inr (ec_free 2 (- 1) 116)"
  using ec_default_free_run [of 0 116] by (simp add: ec_setup_is_free)

lemma ec_default_collides: "ec_collides (ec_walls (ec_advance (ec_free 2 (- 1) 116)))"
  by (simp add: ec_free_def ec_defs)

lemma ec_default_no_wall:
  "ec_walls (ec_advance (ec_free 2 (- 1) 116)) = ec_advance (ec_free 2 (- 1) 116)"
  by (simp add: ec_free_def ec_defs)

lemma ec_default_fields:
  "ec_current_v1 (ec_free 2 (- 1) 116) = 2"
  "ec_current_v2 (ec_free 2 (- 1) 116) = - 1"
  "ec_m1 (ec_free 2 (- 1) 116) = 1"
  "ec_m2 (ec_free 2 (- 1) 116) = 2"
  "ec_current_v1 (ec_walls (ec_advance (ec_free 2 (- 1) 116))) = 2"
  "ec_current_v2 (ec_walls (ec_advance (ec_free 2 (- 1) 116))) = - 1"
  by (simp_all add: ec_free_def ec_defs)

text \<open>What the collision block does when it fires.\<close>

lemma ec_block_collision_resolves:
  assumes "ec_collides w" and "ec_m1 w + ec_m2 w \<noteq> 0"
  shows "ec_block_collision w =
     Inr ((ec_separate w)
           \<lparr>ec_current_v1 := ((ec_m1 w - ec_m2 w) * ec_current_v1 w
                               + 2 * ec_m2 w * ec_current_v2 w) / (ec_m1 w + ec_m2 w),
            ec_current_v2 := ((ec_m2 w - ec_m1 w) * ec_current_v2 w
                               + 2 * ec_m1 w * ec_current_v1 w) / (ec_m1 w + ec_m2 w),
            ec_last_collision_time := ec_t w\<rparr>)"
  using assms by (simp add: ec_block_collision_def ec_separate_def Let_def)

lemma ec_walls_masses [simp]:
  "ec_m1 (ec_walls (ec_advance s)) = ec_m1 s"
  "ec_m2 (ec_walls (ec_advance s)) = ec_m2 s"
  by (simp_all add: ec_walls_def ec_wall_block1_def ec_wall_block2_def ec_advance_def)

lemma ec_advance_velocities [simp]:
  "ec_current_v1 (ec_advance s) = ec_current_v1 s"
  "ec_current_v2 (ec_advance s) = ec_current_v2 s"
  "ec_m1 (ec_advance s) = ec_m1 s"
  "ec_m2 (ec_advance s) = ec_m2 s"
  by (simp_all add: ec_advance_def)

lemma elastic_momentum_algebra:
  fixes a b u v :: real
  assumes "a + b \<noteq> 0"
  shows "a * (((a - b) * u + 2 * b * v) / (a + b)) + b * (((b - a) * v + 2 * a * u) / (a + b))
         = a * u + b * v"
proof -
  have "a * (((a - b) * u + 2 * b * v) / (a + b)) + b * (((b - a) * v + 2 * a * u) / (a + b))
        = (a * ((a - b) * u + 2 * b * v) + b * ((b - a) * v + 2 * a * u)) / (a + b)"
    by (simp only: times_divide_eq_right flip: add_divide_distrib)
  also have "a * ((a - b) * u + 2 * b * v) + b * ((b - a) * v + 2 * a * u)
        = (a * u + b * v) * (a + b)"
    by (simp add: algebra_simps)
  also have "(a * u + b * v) * (a + b) / (a + b) = a * u + b * v"
    using assms by simp
  finally show ?thesis .
qed

lemma ec_block_collision_momentum:
  assumes "ec_collides w" and "ec_m1 w + ec_m2 w \<noteq> 0"
  shows "\<exists>s'. ec_block_collision w = Inr s' \<and> ec_momentum s' = ec_momentum w"
  using assms elastic_momentum_algebra [OF assms(2)]
  by (simp add: ec_block_collision_resolves ec_momentum_def ec_separate_def Let_def)

section \<open>Elastic collision: the claims\<close>

text \<open>
  C1 (as amended).  The scenario \<open>m1 = 1\<close>, \<open>v1 = 2\<close>, \<open>m2 = 2\<close>, \<open>v2 = - 1\<close> is the default
  set-up.  After 116 micro-steps of free motion the blocks still have these velocities;
  the next micro-step touches no wall, finds the blocks colliding, and resolves the
  velocities to \<open>v1' = - 2\<close> and \<open>v2' = 1\<close>.
\<close>

theorem elastic_scenario_velocities:
  "ec_steps 116 ec_setup_parameters = Inr (ec_free 2 (- 1) 116)
   \<and> ec_m1 (ec_free 2 (- 1) 116) = 1 \<and> ec_current_v1 (ec_free 2 (- 1) 116) = 2
   \<and> ec_m2 (ec_free 2 (- 1) 116) = 2 \<and> ec_current_v2 (ec_free 2 (- 1) 116) = - 1
   \<and> ec_walls (ec_advance (ec_free 2 (- 1) 116)) = ec_advance (ec_free 2 (- 1) 116)
   \<and> ec_collides (ec_advance (ec_free 2 (- 1) 116))
   \<and> (\<exists>s'. ec_update_positions (ec_free 2 (- 1) 116) = Inr s'
         \<and> ec_current_v1 s' = - 2 \<and> ec_current_v2 s' = 1)"
  using ec_default_before ec_default_collides ec_default_no_wall
  by (simp add: ec_free_def ec_defs)

text \<open>
  C1 as stated fails: in that scenario the collision does not yield \<open>v1' = - 2/3\<close> and
  \<open>v2' = 2/3\<close>.
\<close>

theorem elastic_scenario_not_two_thirds:
  "\<not> (\<exists>s'. ec_update_positions (ec_free 2 (- 1) 116) = Inr s'
         \<and> ec_current_v1 s' = - (2 / 3) \<and> ec_current_v2 s' = 2 / 3)"
  by (simp add: ec_free_def ec_defs)

text \<open>
  C4.  In a micro-step that touches no wall and in which the blocks collide, the total
  momentum \<open>m1 * v1 + m2 * v2\<close> after the step equals the one before it.
\<close>

theorem elastic_momentum_conserved:
  assumes "ec_walls (ec_advance s) = ec_advance s"
    and "ec_collides (ec_advance s)"
    and "ec_m1 s + ec_m2 s \<noteq> 0"
  shows "\<exists>s'. ec_update_positions s = Inr s' \<and> ec_momentum s' = ec_momentum s"
proof -
  have "ec_m1 (ec_advance s) + ec_m2 (ec_advance s) \<noteq> 0"
    using assms(3) by simp
  from ec_block_collision_momentum [OF assms(2) this]
  show ?thesis
    by (simp add: ec_update_positions_def assms(1) ec_momentum_def)
qed

theorem elastic_momentum_conserved_witness:
  "ec_walls (ec_advance (ec_free 2 (- 1) 116)) = ec_advance (ec_free 2 (- 1) 116)
   \<and> ec_collides (ec_advance (ec_free 2 (- 1) 116))
   \<and> ec_m1 (ec_free 2 (- 1) 116) + ec_m2 (ec_free 2 (- 1) 116) \<noteq> 0
   \<and> ec_momentum (ec_free 2 (- 1) 116) = 0
   \<and> (\<exists>s'. ec_update_positions (ec_free 2 (- 1) 116) = Inr s' \<and> ec_momentum s' = 0)"
proof -
  have w: "ec_walls (ec_advance (ec_free 2 (- 1) 116)) = ec_advance (ec_free 2 (- 1) 116)"
    by (rule ec_default_no_wall)
  have c: "ec_collides (ec_advance (ec_free 2 (- 1) 116))"
    using ec_default_collides by (simp add: w)
  have m: "ec_m1 (ec_free 2 (- 1) 116) + ec_m2 (ec_free 2 (- 1) 116) \<noteq> 0"
    by (simp add: ec_default_fields)
  have p: "ec_momentum (ec_free 2 (- 1) 116) = 0"
    by (simp add: ec_momentum_def ec_default_fields)
  show ?thesis
    using w c m p elastic_momentum_conserved [OF w c m] by simp
qed

text \<open>
  C5.  When the collision block of a micro-step fires, the step returns a state whose
  velocities are the closed-form expressions
  \<open>((m1 - m2) * v1 + 2 * m2 * v2) / (m1 + m2)\<close> and
  \<open>((m2 - m1) * v2 + 2 * m1 * v1) / (m1 + m2)\<close>, both over the velocities \<open>v1\<close>, \<open>v2\<close>
  that the collision block found, that is, after the wall checks of the same step.
\<close>

theorem elastic_closed_form:
  assumes "ec_collides (ec_walls (ec_advance s))" and "ec_m1 s + ec_m2 s \<noteq> 0"
  shows "\<exists>s'. ec_update_positions s = Inr s'
     \<and> ec_current_v1 s' =
         ((ec_m1 s - ec_m2 s) * ec_current_v1 (ec_walls (ec_advance s))
           + 2 * ec_m2 s * ec_current_v2 (ec_walls (ec_advance s))) / (ec_m1 s + ec_m2 s)
     \<and> ec_current_v2 s' =
         ((ec_m2 s - ec_m1 s) * ec_current_v2 (ec_walls (ec_advance s))
           + 2 * ec_m1 s * ec_current_v1 (ec_walls (ec_advance s))) / (ec_m1 s + ec_m2 s)"
  using assms by (simp add: ec_update_positions_def ec_block_collision_resolves)

theorem elastic_closed_form_witness:
  "ec_collides (ec_walls (ec_advance (ec_free 2 (- 1) 116)))
   \<and> ec_m1 (ec_free 2 (- 1) 116) + ec_m2 (ec_free 2 (- 1) 116) \<noteq> 0
   \<and> (\<exists>s'. ec_update_positions (ec_free 2 (- 1) 116) = Inr s'
        \<and> ec_current_v1 s' = - 2 \<and> ec_current_v2 s' = 1)"
proof -
  have c: "ec_collides (ec_walls (ec_advance (ec_free 2 (- 1) 116)))"
    by (rule ec_default_collides)
  have m: "ec_m1 (ec_free 2 (- 1) 116) + ec_m2 (ec_free 2 (- 1) 116) \<noteq> 0"
    by (simp add: ec_default_fields)
  show ?thesis
    using c m elastic_closed_form [OF c m] by (simp add: ec_default_fields)
qed

section \<open>Elastic collision: wall containment\<close>

text \<open>
  The wall checks alone put both blocks between the walls, whenever the walls are at
  least one block apart.
\<close>

lemma ec_contained_after_walls:
  assumes "ec_wall_left s + ec_block_width s \<le> ec_wall_right s"
  shows "ec_contained (ec_walls s)"
  using assms
  by (simp add: ec_contained_def ec_walls_def ec_wall_block1_def ec_wall_block2_def)

text \<open>
  A run with the default masses and the slider velocities \<open>- 1.9\<close> and \<open>- 4.3\<close>: 144
  micro-steps of free motion, then block 1 reaches the left wall, then block 2 reaches
  block 1.
\<close>

lemma ec_fast_free_step:
  assumes "real n < 144"
  shows "ec_update_positions (ec_free (- (19 / 10)) (- (43 / 10)) n)
         = Inr (ec_free (- (19 / 10)) (- (43 / 10)) (Suc n))"
  using assms by (simp add: ec_free_def ec_defs field_simps)

lemma ec_fast_free_run:
  "k + n \<le> 144 \<Longrightarrow> ec_steps n (ec_free (- (19 / 10)) (- (43 / 10)) k)
     = Inr (ec_free (- (19 / 10)) (- (43 / 10)) (k + n))"
proof (induction n arbitrary: k)
  case 0
  then show ?case by simp
next
  case (Suc n)
  have "real k < 144" using Suc.prems by simp
  then show ?case using Suc.IH [of "Suc k"] Suc.prems by (simp add: ec_fast_free_step)
qed

lemma ec_fast_step_145:
  "ec_update_positions (ec_free (- (19 / 10)) (- (43 / 10)) 144)
   = Inr ((ec_free (- (19 / 10)) (- (43 / 10)) 145)
            \<lparr>ec_x1 := - (19 / 4), ec_current_v1 := 19 / 10\<rparr>)"
  by (simp add: ec_free_def ec_defs)

lemma ec_fast_step_146:
  "ec_update_positions ((ec_free (- (19 / 10)) (- (43 / 10)) 145)
            \<lparr>ec_x1 := - (19 / 4), ec_current_v1 := 19 / 10\<rparr>)
   = Inr ((ec_free (- (19 / 10)) (- (43 / 10)) 146)
            \<lparr>ec_x1 := - (9509 / 2000), ec_x2 := - (8509 / 2000),
             ec_current_v1 := - (191 / 30), ec_current_v2 := - (1 / 6),
             ec_last_collision_time := 146 / 100\<rparr>)"
  by (simp add: ec_free_def ec_defs)

lemma ec_fast_run_146:
  "ec_steps 146 (ec_reset (ec_update_params 1 2 (- (19 / 10)) (- (43 / 10)) ec_setup_parameters))
   = Inr ((ec_free (- (19 / 10)) (- (43 / 10)) 146)
            \<lparr>ec_x1 := - (9509 / 2000), ec_x2 := - (8509 / 2000),
             ec_current_v1 := - (191 / 30), ec_current_v2 := - (1 / 6),
             ec_last_collision_time := 146 / 100\<rparr>)"
proof -
  have "ec_steps (144 + Suc (Suc 0)) (ec_free (- (19 / 10)) (- (43 / 10)) 0) =
      (case ec_steps 144 (ec_free (- (19 / 10)) (- (43 / 10)) 0) of
         Inl e \<Rightarrow> Inl e | Inr s' \<Rightarrow> ec_steps (Suc (Suc 0)) s')"
    by (rule ec_steps_add)
  also have "ec_steps 144 (ec_free (- (19 / 10)) (- (43 / 10)) 0)
      = Inr (ec_free (- (19 / 10)) (- (43 / 10)) (0 + 144))"
    by (rule ec_fast_free_run) simp
  finally show ?thesis
    by (simp add: ec_fast_step_145 ec_fast_step_146 ec_free_0)
qed

text \<open>
  C6 (the code at the failing input).  Default masses, slider velocities \<open>v1 = - 1.9\<close>
  and \<open>v2 = - 4.3\<close>, Reset, 146 micro-steps: the run returns a state in which the left
  edge of block 1 is at \<open>- 5.0045\<close>, beyond the left wall at \<open>- 5\<close>.  In step 146 the
  wall check passes, and the separation of the colliding blocks then moves block 1 by
  half the overlap towards the wall.
\<close>

theorem elastic_wall_containment_violated:
  "\<exists>s'. ec_steps 146
           (ec_reset (ec_update_params 1 2 (- (19 / 10)) (- (43 / 10)) ec_setup_parameters))
         = Inr s'
     \<and> ec_x1 s' - ec_block_width s' / 2 = - (10009 / 2000) \<and> ec_wall_left s' = - 5
     \<and> \<not> ec_contained s'"
  unfolding ec_fast_run_146
  by (simp add: ec_contained_def ec_free_def ec_defs)

section \<open>Elastic collision: time\<close>

lemma ec_wall_block1_keeps [simp]:
  "ec_t (ec_wall_block1 s) = ec_t s" "ec_dt (ec_wall_block1 s) = ec_dt s"
  "ec_m1 (ec_wall_block1 s) = ec_m1 s" "ec_m2 (ec_wall_block1 s) = ec_m2 s"
  by (simp_all add: ec_wall_block1_def)

lemma ec_wall_block2_keeps [simp]:
  "ec_t (ec_wall_block2 s) = ec_t s" "ec_dt (ec_wall_block2 s) = ec_dt s"
  "ec_m1 (ec_wall_block2 s) = ec_m1 s" "ec_m2 (ec_wall_block2 s) = ec_m2 s"
  by (simp_all add: ec_wall_block2_def)

lemma ec_block_collision_time:
  assumes "ec_m1 s + ec_m2 s \<noteq> 0"
  shows "\<exists>s'. ec_block_collision s = Inr s' \<and> ec_t s' = ec_t s
     \<and> ec_dt s' = ec_dt s \<and> ec_m1 s' = ec_m1 s \<and> ec_m2 s' = ec_m2 s"
proof (cases "ec_collides s")
  case True
  then show ?thesis using assms
    by (simp add: ec_block_collision_resolves) (simp add: ec_separate_def Let_def)
next
  case False
  then show ?thesis by (simp add: ec_block_collision_def)
qed

lemma ec_update_positions_time:
  assumes "ec_m1 s + ec_m2 s \<noteq> 0"
  shows "\<exists>s'. ec_update_positions s = Inr s' \<and> ec_t s' = ec_t s + ec_dt s
     \<and> ec_dt s' = ec_dt s \<and> ec_m1 s' = ec_m1 s \<and> ec_m2 s' = ec_m2 s"
proof -
  have "ec_m1 (ec_walls (ec_advance s)) + ec_m2 (ec_walls (ec_advance s)) \<noteq> 0"
    using assms by simp
  from ec_block_collision_time [OF this] show ?thesis
    by (simp add: ec_update_positions_def ec_walls_def) (simp add: ec_advance_def)
qed

lemma ec_steps_time:
  assumes "ec_m1 s + ec_m2 s \<noteq> 0"
  shows "\<exists>s'. ec_steps n s = Inr s' \<and> ec_t s' = ec_t s + real n * ec_dt s
     \<and> ec_dt s' = ec_dt s \<and> ec_m1 s' = ec_m1 s \<and> ec_m2 s' = ec_m2 s"
  using assms
proof (induction n arbitrary: s)
  case 0
  then show ?case by simp
next
  case (Suc n)
  from ec_update_positions_time [OF Suc.prems] obtain s1 where
    s1: "ec_update_positions s = Inr s1" "ec_t s1 = ec_t s + ec_dt s"
      "ec_dt s1 = ec_dt s" "ec_m1 s1 = ec_m1 s" "ec_m2 s1 = ec_m2 s"
    by blast
  then have "ec_m1 s1 + ec_m2 s1 \<noteq> 0" using Suc.prems by simp
  from Suc.IH [OF this] obtain s' where
    s': "ec_steps n s1 = Inr s'" "ec_t s' = ec_t s1 + real n * ec_dt s1"
      "ec_dt s' = ec_dt s1" "ec_m1 s' = ec_m1 s1" "ec_m2 s' = ec_m2 s1"
    by blast
  have "ec_steps (Suc n) s = Inr s'" using s1(1) s'(1) by simp
  moreover have "ec_t s' = ec_t s + real (Suc n) * ec_dt s"
    using s1 s' by (simp add: algebra_simps)
  ultimately show ?case using s1 s' by simp
qed

section \<open>Atwood machine: the string constraint\<close>

lemma aw_setup_value: "aw_setup_parameters = Inr aw_start"
  by (simp add: aw_setup_parameters_def aw_reset_simulation_def aw_start_def)

lemma aw_short_string_value:
  "aw_update_parameters 1 2 2 aw_start = Inr (aw_start\<lparr>aw_string_length := 2\<rparr>)"
  by (simp add: aw_update_parameters_def aw_reset_simulation_def aw_start_def)

lemma aw_record_keeps [simp]:
  "aw_y1 (aw_record s) = aw_y1 s" "aw_y2 (aw_record s) = aw_y2 s"
  "aw_string_length (aw_record s) = aw_string_length s"
  "aw_t_max (aw_record s) = aw_t_max s" "aw_paused (aw_record s) = aw_paused s"
  "aw_dt (aw_record s) = aw_dt s"
  "aw_current_time (aw_record s) = aw_current_time s + aw_dt s"
  by (simp_all add: aw_record_def Let_def)

lemma aw_constraint_keeps [simp]:
  "aw_string_length (aw_constraint s) = aw_string_length s"
  "aw_t_max (aw_constraint s) = aw_t_max s" "aw_paused (aw_constraint s) = aw_paused s"
  "aw_dt (aw_constraint s) = aw_dt s" "aw_current_time (aw_constraint s) = aw_current_time s"
  by (simp_all add: aw_constraint_def Let_def)

lemma aw_euler_keeps [simp]:
  "aw_string_length (aw_euler s) = aw_string_length s"
  "aw_t_max (aw_euler s) = aw_t_max s" "aw_paused (aw_euler s) = aw_paused s"
  "aw_dt (aw_euler s) = aw_dt s" "aw_current_time (aw_euler s) = aw_current_time s"
  by (simp_all add: aw_euler_def Let_def)

lemma aw_constraint_midpoint: "aw_midpoint (aw_constraint s) = aw_midpoint s"
  by (simp add: aw_constraint_def aw_midpoint_def Let_def)

lemma aw_constraint_exact:
  assumes "0 \<le> aw_string_length s" and "aw_separation s > aw_string_length s"
  shows "aw_separation (aw_constraint s) = aw_string_length s"
  using assms by (simp add: aw_constraint_def aw_separation_def Let_def)

lemma aw_constraint_bound:
  assumes "0 \<le> aw_string_length s"
  shows "aw_separation (aw_constraint s) \<le> aw_string_length s"
proof (cases "aw_separation s > aw_string_length s")
  case True
  then show ?thesis using aw_constraint_exact [OF assms] by simp
next
  case False
  then show ?thesis by (simp add: aw_constraint_def aw_separation_def Let_def)
qed

lemma aw_update_physics_bound:
  assumes "0 \<le> aw_string_length s"
  shows "aw_separation (aw_update_physics s) \<le> aw_string_length s"
proof -
  have "0 \<le> aw_string_length (aw_euler s)" using assms by simp
  from aw_constraint_bound [OF this] show ?thesis
    by (simp add: aw_update_physics_def aw_separation_def)
qed

lemma aw_update_physics_length [simp]:
  "aw_string_length (aw_update_physics s) = aw_string_length s"
  by (simp add: aw_update_physics_def)

lemma aw_run_length [simp]:
  "aw_string_length ((aw_update_physics ^^ n) s) = aw_string_length s"
  by (induction n) simp_all

lemma aw_run_bound:
  assumes "0 \<le> aw_string_length s"
  shows "aw_separation ((aw_update_physics ^^ Suc n) s) \<le> aw_string_length s"
proof -
  have "0 \<le> aw_string_length ((aw_update_physics ^^ n) s)" using assms by simp
  from aw_update_physics_bound [OF this] show ?thesis by simp
qed

text \<open>
  C3.  For a string length that is not negative: after every step of any run of
  \<open>update_physics\<close>, \<open>|y1 - y2| \<le> string_length\<close>; the constraint block leaves the
  midpoint \<open>(y1 + y2) / 2\<close> unchanged; and when it finds the masses further apart than
  the string length, it sets their separation to exactly the string length.
\<close>

theorem atwood_string_constraint:
  assumes "0 \<le> aw_string_length s"
  shows "aw_separation ((aw_update_physics ^^ Suc n) s) \<le> aw_string_length s
     \<and> aw_midpoint (aw_constraint s) = aw_midpoint s
     \<and> (aw_separation s > aw_string_length s
          \<longrightarrow> aw_separation (aw_constraint s) = aw_string_length s)"
  using assms aw_run_bound aw_constraint_midpoint aw_constraint_exact by blast

text \<open>
  The witness is the machine after the sliders were set to \<open>m1 = 1\<close>, \<open>m2 = 2\<close> and
  string length 2: the masses start 3 apart, and the first step pulls them to 2.
\<close>

theorem atwood_string_constraint_witness:
  "aw_update_parameters 1 2 2 aw_start = Inr (aw_start\<lparr>aw_string_length := 2\<rparr>)
   \<and> 0 \<le> aw_string_length (aw_start\<lparr>aw_string_length := 2\<rparr>)
   \<and> aw_separation (aw_start\<lparr>aw_string_length := 2\<rparr>) = 3
   \<and> aw_separation ((aw_update_physics ^^ Suc 0) (aw_start\<lparr>aw_string_length := 2\<rparr>)) \<le> 2
   \<and> aw_midpoint (aw_constraint (aw_start\<lparr>aw_string_length := 2\<rparr>)) = 0
   \<and> aw_separation (aw_constraint (aw_start\<lparr>aw_string_length := 2\<rparr>)) = 2"
proof -
  have l: "0 \<le> aw_string_length (aw_start\<lparr>aw_string_length := 2\<rparr>)"
    by simp
  have v: "aw_separation (aw_start\<lparr>aw_string_length := 2\<rparr>) = 3"
    "aw_midpoint (aw_start\<lparr>aw_string_length := 2\<rparr>) = 0"
    by (simp_all add: aw_separation_def aw_midpoint_def aw_start_def)
  show ?thesis
    using atwood_string_constraint [OF l, of 0] aw_short_string_value v by simp
qed

section \<open>Rotation: the angle\<close>

lemma rb_setup_value: "rb_setup_parameters = Inr rb_disk_start"
  by (simp add: rb_setup_parameters_def rb_reset_simulation_def rigid_parameters_def
      moment_of_inertia_of_def rb_clear_def rb_disk_start_def Let_def power2_eq_square)

lemma ff_setup_value: "ff_setup_parameters = rb_disk_start"
  by (simp add: ff_setup_parameters_def ff_reset_simulation_def rigid_parameters_def
      moment_of_inertia_of_def rb_clear_def rb_disk_start_def Let_def power2_eq_square)

lemma rb_record_keeps [simp]:
  "rb_theta (rb_record s) = rb_theta s" "rb_omega (rb_record s) = rb_omega s"
  "rb_alpha (rb_record s) = rb_alpha s" "rb_dt (rb_record s) = rb_dt s"
  "rb_t_max (rb_record s) = rb_t_max s" "rb_paused (rb_record s) = rb_paused s"
  "rb_current_time (rb_record s) = rb_current_time s"
  by (simp_all add: rb_record_def Let_def)

lemma rb_update_physics_fields:
  assumes "\<not> rb_paused s" and "rb_current_time s < rb_t_max s"
  shows "rb_omega (rb_update_physics s) = rb_omega s + rb_alpha s * rb_dt s"
    and "rb_theta (rb_update_physics s) = next_theta s"
    and "rb_current_time (rb_update_physics s) = rb_current_time s + rb_dt s"
    and "rb_alpha (rb_update_physics s) = rb_alpha s"
    and "rb_dt (rb_update_physics s) = rb_dt s"
    and "rb_t_max (rb_update_physics s) = rb_t_max s"
    and "rb_paused (rb_update_physics s) = rb_paused s"
  using assms by (simp_all add: rb_update_physics_def next_theta_def Let_def)

text \<open>
  The first 500 frames of \<open>rigid_body_rotation.py\<close> after set-up, in closed form.
\<close>

lemma rb_disk_run:
  assumes "n \<le> 500"
  shows "rb_omega ((rb_update_physics ^^ n) rb_disk_start) = 4 * real n / 25
     \<and> rb_theta ((rb_update_physics ^^ n) rb_disk_start) = real n * (real n + 1) / 625
     \<and> rb_current_time ((rb_update_physics ^^ n) rb_disk_start) = real n / 50
     \<and> rb_alpha ((rb_update_physics ^^ n) rb_disk_start) = 8
     \<and> rb_dt ((rb_update_physics ^^ n) rb_disk_start) = 1 / 50
     \<and> rb_t_max ((rb_update_physics ^^ n) rb_disk_start) = 10
     \<and> \<not> rb_paused ((rb_update_physics ^^ n) rb_disk_start)"
  using assms
proof (induction n)
  case 0
  show ?case by (simp add: rb_disk_start_def rigid_parameters_def)
next
  case (Suc n)
  let ?s = "(rb_update_physics ^^ n) rb_disk_start"
  have ih: "rb_omega ?s = 4 * real n / 25" "rb_theta ?s = real n * (real n + 1) / 625"
    "rb_current_time ?s = real n / 50" "rb_alpha ?s = 8" "rb_dt ?s = 1 / 50"
    "rb_t_max ?s = 10" "\<not> rb_paused ?s"
    using Suc by simp_all
  have g: "rb_current_time ?s < rb_t_max ?s" using Suc.prems ih by simp
  show ?case
    using rb_update_physics_fields [OF ih(7) g] ih
    by (simp add: next_theta_def field_simps)
qed

lemma py_fmod_range:
  assumes "0 < y"
  shows "0 \<le> py_fmod x y" and "py_fmod x y < y"
proof -
  have "of_int \<lfloor>x / y\<rfloor> * y \<le> x" using assms by (rule floor_divide_lower)
  then show "0 \<le> py_fmod x y" by (simp add: py_fmod_def mult.commute)
  have "x < (of_int \<lfloor>x / y\<rfloor> + 1) * y" using assms by (rule floor_divide_upper)
  then show "py_fmod x y < y" by (simp add: py_fmod_def algebra_simps)
qed

lemma ff_update_theta:
  "rb_theta (ff_update_physics s) =
     (if next_theta s > 4 * pi then py_fmod (next_theta s) (2 * pi) else next_theta s)"
  by (simp add: ff_update_physics_def next_theta_def Let_def)

text \<open>
  C2 as stated fails for \<open>update_physics\<close> of \<open>rigid_body_rotation.py\<close>: 100 frames
  after set-up the stored angle is \<open>16.16\<close>, above \<open>4 * pi\<close>, and not reduced.
\<close>

theorem rigid_theta_not_wrapped:
  "\<exists>s0. rb_setup_parameters = Inr s0
     \<and> rb_theta ((rb_update_physics ^^ 100) s0) = 404 / 25
     \<and> 4 * pi < rb_theta ((rb_update_physics ^^ 100) s0)"
proof -
  have "rb_theta ((rb_update_physics ^^ 100) rb_disk_start) = 404 / 25"
    using rb_disk_run [of 100] by simp
  moreover have "4 * pi < 404 / 25" using pi_less_4 by simp
  ultimately show ?thesis by (simp add: rb_setup_value)
qed

text \<open>
  C2 (as amended).  \<open>update_physics\<close> of \<open>free_fall_simulation.py\<close> stores the new
  angle reduced modulo \<open>2 * pi\<close> when it is above \<open>4 * pi\<close>, and as computed otherwise;
  so the stored angle is at most \<open>4 * pi\<close> after every step, lies in \<open>[0, 2 * pi)\<close> after
  a reduction, and may lie between \<open>2 * pi\<close> and \<open>4 * pi\<close> without one.
  \<open>update_physics\<close> of \<open>rigid_body_rotation.py\<close> stores the new angle as computed.
\<close>

theorem free_fall_theta_wrap:
  "rb_theta (ff_update_physics s) =
     (if next_theta s > 4 * pi then py_fmod (next_theta s) (2 * pi) else next_theta s)
   \<and> rb_theta (ff_update_physics s) \<le> 4 * pi
   \<and> (next_theta s > 4 * pi \<longrightarrow>
        0 \<le> rb_theta (ff_update_physics s) \<and> rb_theta (ff_update_physics s) < 2 * pi)
   \<and> rb_theta (rb_update_physics s) =
       (if \<not> rb_paused s \<and> rb_current_time s < rb_t_max s then next_theta s else rb_theta s)"
proof -
  have r: "0 \<le> py_fmod (next_theta s) (2 * pi)" "py_fmod (next_theta s) (2 * pi) < 2 * pi"
    using py_fmod_range [of "2 * pi"] by simp_all
  have "rb_theta (rb_update_physics s) =
       (if \<not> rb_paused s \<and> rb_current_time s < rb_t_max s then next_theta s else rb_theta s)"
    by (simp add: rb_update_physics_def next_theta_def Let_def)
  moreover have "py_fmod (next_theta s) (2 * pi) \<le> 4 * pi"
    using r(2) pi_gt_zero by linarith
  ultimately show ?thesis using r by (simp add: ff_update_theta)
qed

text \<open>
  Two states without torque: from the angle 16 the step reduces, from the angle 8 it
  does not, and 8 is above \<open>2 * pi\<close>.
\<close>

theorem free_fall_theta_wrap_witness:
  "next_theta (rb_disk_start\<lparr>rb_theta := 16, rb_alpha := 0\<rparr>) > 4 * pi
   \<and> 0 \<le> rb_theta (ff_update_physics (rb_disk_start\<lparr>rb_theta := 16, rb_alpha := 0\<rparr>))
   \<and> rb_theta (ff_update_physics (rb_disk_start\<lparr>rb_theta := 16, rb_alpha := 0\<rparr>)) < 2 * pi
   \<and> rb_theta (ff_update_physics (rb_disk_start\<lparr>rb_theta := 8, rb_alpha := 0\<rparr>)) = 8
   \<and> 2 * pi < rb_theta (ff_update_physics (rb_disk_start\<lparr>rb_theta := 8, rb_alpha := 0\<rparr>))"
proof -
  have a: "next_theta (rb_disk_start\<lparr>rb_theta := 16, rb_alpha := 0\<rparr>) = 16"
    by (simp add: next_theta_def rb_disk_start_def rigid_parameters_def)
  have b: "next_theta (rb_disk_start\<lparr>rb_theta := 8, rb_alpha := 0\<rparr>) = 8"
    by (simp add: next_theta_def rb_disk_start_def rigid_parameters_def)
  have p: "4 * pi < 16" "2 * pi < 8" "8 \<le> 4 * pi"
    using pi_less_4 pi_ge_two by simp_all
  show ?thesis
    using free_fall_theta_wrap [of "rb_disk_start\<lparr>rb_theta := 16, rb_alpha := 0\<rparr>"]
      free_fall_theta_wrap [of "rb_disk_start\<lparr>rb_theta := 8, rb_alpha := 0\<rparr>"] p
    by (simp add: a b)
qed

section \<open>The time cutoff\<close>

lemma aw_frame_stopped:
  assumes "aw_paused a \<or> aw_t_max a \<le> aw_current_time a"
  shows "(aw_animate_frame ^^ n) a = a"
proof (induction n)
  case 0
  show ?case by simp
next
  case (Suc n)
  have "aw_animate_frame a = a" using assms by (auto simp: aw_animate_frame_def)
  then show ?case using Suc by simp
qed

lemma aw_frame_running:
  assumes "\<not> aw_paused a" and "aw_current_time a < aw_t_max a"
  shows "aw_animate_frame a = aw_update_physics a"
    and "aw_current_time (aw_animate_frame a) = aw_current_time a + aw_dt a"
  using assms by (simp_all add: aw_animate_frame_def aw_update_physics_def)

lemma aw_frame_t_max: "aw_t_max (aw_animate_frame a) = aw_t_max a"
  by (simp add: aw_animate_frame_def aw_update_physics_def)

lemma rb_frame_stopped:
  assumes "rb_paused r \<or> rb_t_max r \<le> rb_current_time r"
  shows "(rb_animate_frame ^^ n) r = r"
proof (induction n)
  case 0
  show ?case by simp
next
  case (Suc n)
  have "rb_animate_frame r = r"
    using assms by (auto simp: rb_animate_frame_def rb_update_physics_def)
  then show ?case using Suc by simp
qed

lemma rb_frame_running:
  assumes "\<not> rb_paused r" and "rb_current_time r < rb_t_max r"
  shows "rb_current_time (rb_animate_frame r) = rb_current_time r + rb_dt r"
  using rb_update_physics_fields [OF assms] by (simp add: rb_animate_frame_def)

lemma rb_frame_t_max: "rb_t_max (rb_animate_frame r) = rb_t_max r"
  by (simp add: rb_animate_frame_def rb_update_physics_def Let_def)

lemma ec_frame_running:
  assumes "\<not> ec_is_paused e" and "ec_m1 e + ec_m2 e \<noteq> 0"
  shows "\<exists>e'. ec_update_animation e = Inr e'
     \<and> ec_t e' = ec_t e + real (ec_frame_skip e) * ec_dt e"
  using ec_steps_time [OF assms(2), of "ec_frame_skip e"] assms(1)
  by (auto simp: ec_update_animation_def)

text \<open>
  C10.  In the Atwood machine and in \<open>rigid_body_rotation.py\<close> a frame advances the
  physics only while the engine is not paused and \<open>current_time < t_max\<close>, and then the
  time grows by \<open>dt\<close>; once \<open>current_time\<close> has reached \<open>t_max\<close>, any number of further
  frames leaves the whole state as it is, paused or not.  No frame changes \<open>t_max\<close>, which
  set-up makes 10 in both.  In the elastic-collision engine a frame that is not paused
  advances the time by \<open>frame_skip * dt\<close> also when the time has reached \<open>t_max\<close>.
\<close>

theorem time_cutoff:
  "(aw_t_max a \<le> aw_current_time a \<longrightarrow> (aw_animate_frame ^^ n) a = a)
   \<and> (\<not> aw_paused a \<and> aw_current_time a < aw_t_max a \<longrightarrow>
        aw_animate_frame a = aw_update_physics a
        \<and> aw_current_time (aw_animate_frame a) = aw_current_time a + aw_dt a)
   \<and> aw_t_max (aw_animate_frame a) = aw_t_max a
   \<and> (rb_t_max r \<le> rb_current_time r \<longrightarrow> (rb_animate_frame ^^ n) r = r)
   \<and> (\<not> rb_paused r \<and> rb_current_time r < rb_t_max r \<longrightarrow>
        rb_current_time (rb_animate_frame r) = rb_current_time r + rb_dt r)
   \<and> rb_t_max (rb_animate_frame r) = rb_t_max r
   \<and> (\<not> ec_is_paused e \<and> ec_t_max e \<le> ec_t e \<and> ec_m1 e + ec_m2 e \<noteq> 0 \<longrightarrow>
        (\<exists>e'. ec_update_animation e = Inr e'
           \<and> ec_t e' = ec_t e + real (ec_frame_skip e) * ec_dt e))
   \<and> aw_setup_parameters = Inr aw_start \<and> aw_t_max aw_start = 10
   \<and> rb_setup_parameters = Inr rb_disk_start \<and> rb_t_max rb_disk_start = 10"
  using aw_frame_stopped [of a n] aw_frame_running [of a] aw_frame_t_max [of a]
    rb_frame_stopped [of r n] rb_frame_running [of r] rb_frame_t_max [of r]
    ec_frame_running [of e] aw_setup_value rb_setup_value
  by (simp add: aw_start_def rb_disk_start_def rigid_parameters_def)

text \<open>
  The witness: both engines at time 10 and not paused, both engines just set up, and
  the elastic engine at time 20, its \<open>t_max\<close>.
\<close>

theorem time_cutoff_witness:
  "aw_t_max (aw_start\<lparr>aw_current_time := 10\<rparr>) \<le> aw_current_time (aw_start\<lparr>aw_current_time := 10\<rparr>)
   \<and> \<not> aw_paused (aw_start\<lparr>aw_current_time := 10\<rparr>)
   \<and> (aw_animate_frame ^^ 3) (aw_start\<lparr>aw_current_time := 10\<rparr>) = aw_start\<lparr>aw_current_time := 10\<rparr>
   \<and> aw_current_time (aw_animate_frame aw_start) = 1 / 50
   \<and> rb_t_max (rb_disk_start\<lparr>rb_current_time := 10\<rparr>) \<le> rb_current_time (rb_disk_start\<lparr>rb_current_time := 10\<rparr>)
   \<and> \<not> rb_paused (rb_disk_start\<lparr>rb_current_time := 10\<rparr>)
   \<and> (rb_animate_frame ^^ 3) (rb_disk_start\<lparr>rb_current_time := 10\<rparr>) = rb_disk_start\<lparr>rb_current_time := 10\<rparr>
   \<and> rb_current_time (rb_animate_frame rb_disk_start) = 1 / 50
   \<and> ec_t_max (ec_setup_parameters\<lparr>ec_t := 20\<rparr>) \<le> ec_t (ec_setup_parameters\<lparr>ec_t := 20\<rparr>)
   \<and> (\<exists>e'. ec_update_animation (ec_setup_parameters\<lparr>ec_t := 20\<rparr>) = Inr e' \<and> ec_t e' = 1001 / 50)"
proof -
  have a: "aw_t_max (aw_start\<lparr>aw_current_time := 10\<rparr>) \<le> aw_current_time (aw_start\<lparr>aw_current_time := 10\<rparr>)"
    "\<not> aw_paused (aw_start\<lparr>aw_current_time := 10\<rparr>)"
    "\<not> aw_paused aw_start \<and> aw_current_time aw_start < aw_t_max aw_start"
    "aw_current_time aw_start + aw_dt aw_start = 1 / 50"
    by (simp_all add: aw_start_def)
  have r: "rb_t_max (rb_disk_start\<lparr>rb_current_time := 10\<rparr>) \<le> rb_current_time (rb_disk_start\<lparr>rb_current_time := 10\<rparr>)"
    "\<not> rb_paused (rb_disk_start\<lparr>rb_current_time := 10\<rparr>)"
    "\<not> rb_paused rb_disk_start \<and> rb_current_time rb_disk_start < rb_t_max rb_disk_start"
    "rb_current_time rb_disk_start + rb_dt rb_disk_start = 1 / 50"
    by (simp_all add: rb_disk_start_def rigid_parameters_def)
  have e: "\<not> ec_is_paused (ec_setup_parameters\<lparr>ec_t := 20\<rparr>)
      \<and> ec_t_max (ec_setup_parameters\<lparr>ec_t := 20\<rparr>) \<le> ec_t (ec_setup_parameters\<lparr>ec_t := 20\<rparr>)
      \<and> ec_m1 (ec_setup_parameters\<lparr>ec_t := 20\<rparr>) + ec_m2 (ec_setup_parameters\<lparr>ec_t := 20\<rparr>) \<noteq> 0"
    "ec_t (ec_setup_parameters\<lparr>ec_t := 20\<rparr>)
       + real (ec_frame_skip (ec_setup_parameters\<lparr>ec_t := 20\<rparr>)) * ec_dt (ec_setup_parameters\<lparr>ec_t := 20\<rparr>) = 1001 / 50"
    by (simp_all add: ec_defs)
  note T = time_cutoff [of "aw_start\<lparr>aw_current_time := 10\<rparr>" 3
      "rb_disk_start\<lparr>rb_current_time := 10\<rparr>" "ec_setup_parameters\<lparr>ec_t := 20\<rparr>"]
  note U = time_cutoff [of aw_start 0 rb_disk_start ec_setup_parameters]
  from T a(1) have 1:
    "(aw_animate_frame ^^ 3) (aw_start\<lparr>aw_current_time := 10\<rparr>) = aw_start\<lparr>aw_current_time := 10\<rparr>"
    by blast
  from T r(1) have 2:
    "(rb_animate_frame ^^ 3) (rb_disk_start\<lparr>rb_current_time := 10\<rparr>) = rb_disk_start\<lparr>rb_current_time := 10\<rparr>"
    by blast
  from T e(1) have "\<exists>e'. ec_update_animation (ec_setup_parameters\<lparr>ec_t := 20\<rparr>) = Inr e'
      \<and> ec_t e' = ec_t (ec_setup_parameters\<lparr>ec_t := 20\<rparr>)
       + real (ec_frame_skip (ec_setup_parameters\<lparr>ec_t := 20\<rparr>)) * ec_dt (ec_setup_parameters\<lparr>ec_t := 20\<rparr>)"
    by blast
  then have 3: "\<exists>e'. ec_update_animation (ec_setup_parameters\<lparr>ec_t := 20\<rparr>) = Inr e' \<and> ec_t e' = 1001 / 50"
    by (simp only: e(2))
  from U a(3) have "aw_current_time (aw_animate_frame aw_start) = aw_current_time aw_start + aw_dt aw_start"
    by blast
  then have 4: "aw_current_time (aw_animate_frame aw_start) = 1 / 50"
    by (simp only: a(4))
  from U r(3) have "rb_current_time (rb_animate_frame rb_disk_start) = rb_current_time rb_disk_start + rb_dt rb_disk_start"
    by blast
  then have 5: "rb_current_time (rb_animate_frame rb_disk_start) = 1 / 50"
    by (simp only: r(4))
  from a(1,2) r(1,2) e(1) 1 2 3 4 5 show ?thesis by blast
qed

section \<open>Line drawer: snap\<close>

lemma ld_snap_line:
  assumes "ld_line s = Some l"
    and "ld_snap_target_index s < length (ld_x s)"
    and "ld_snap_target_index s < length (ld_y s)"
  shows "\<exists>s'. ld_snap s = Inr s' \<and> ld_line s' = Some (snapped s l)"
  using assms by (simp add: ld_snap_def snapped_def Let_def)

lemma snapped_midpoint:
  "line_midpoint (snapped s l) = (ld_x s ! ld_snap_target_index s, ld_y s ! ld_snap_target_index s)"
  by (simp add: snapped_def line_midpoint_def Let_def field_simps)

lemma snapped_direction: "line_direction (snapped s l) = line_direction l"
  by (simp add: snapped_def line_direction_def Let_def)

lemma snapped_length: "line_length (snapped s l) = line_length l"
  by (simp add: snapped_def line_length_def Let_def)

text \<open>
  C7.  \<open>snap\<close> on an existing line, with the target index inside the curve arrays,
  returns a state whose line has its midpoint at the target curve point
  \<open>(x[snap_target_index], y[snap_target_index])\<close>, and the same direction vector and
  the same length as the line before the call.
\<close>

theorem snap_exact:
  assumes "ld_line s = Some l"
    and "ld_snap_target_index s < length (ld_x s)"
    and "ld_snap_target_index s < length (ld_y s)"
  shows "\<exists>s' l'. ld_snap s = Inr s' \<and> ld_line s' = Some l'
     \<and> line_midpoint l' = (ld_x s ! ld_snap_target_index s, ld_y s ! ld_snap_target_index s)
     \<and> line_direction l' = line_direction l
     \<and> line_length l' = line_length l"
  using ld_snap_line [OF assms] snapped_midpoint snapped_direction snapped_length
  by blast

text \<open>
  The witness: the target is the third sample, \<open>(5, 1)\<close>; the line from \<open>(0, 0)\<close> to
  \<open>(4, 0)\<close> keeps its direction \<open>(4, 0)\<close>.
\<close>

theorem snap_exact_witness:
  "ld_line ld_example = Some \<lparr>xdata = (0, 4), ydata = (0, 0)\<rparr>
   \<and> ld_snap_target_index ld_example < length (ld_x ld_example)
   \<and> ld_snap_target_index ld_example < length (ld_y ld_example)
   \<and> (\<exists>s' l'. ld_snap ld_example = Inr s' \<and> ld_line s' = Some l'
        \<and> line_midpoint l' = (5, 1) \<and> line_direction l' = (4, 0))"
proof -
  have a: "ld_line ld_example = Some \<lparr>xdata = (0, 4), ydata = (0, 0)\<rparr>"
    and b: "ld_snap_target_index ld_example < length (ld_x ld_example)"
    and c: "ld_snap_target_index ld_example < length (ld_y ld_example)"
    by (simp_all add: ld_example_def)
  have v: "ld_x ld_example ! ld_snap_target_index ld_example = 5"
    "ld_y ld_example ! ld_snap_target_index ld_example = 1"
    "line_direction \<lparr>xdata = (0, 4), ydata = (0, 0)\<rparr> = (4, 0)"
    by (simp_all add: ld_example_def line_direction_def)
  from snap_exact [OF a b c] obtain s' l' where
    r: "ld_snap ld_example = Inr s'" "ld_line s' = Some l'"
      "line_midpoint l' = (ld_x ld_example ! ld_snap_target_index ld_example,
         ld_y ld_example ! ld_snap_target_index ld_example)"
      "line_direction l' = line_direction \<lparr>xdata = (0, 4), ydata = (0, 0)\<rparr>"
    by blast
  have "line_midpoint l' = (5, 1)" using r(3) by (simp only: v)
  moreover have "line_direction l' = (4, 0)" using r(4) by (simp only: v)
  ultimately have "\<exists>s' l'. ld_snap ld_example = Inr s' \<and> ld_line s' = Some l'
        \<and> line_midpoint l' = (5, 1) \<and> line_direction l' = (4, 0)"
    using r(1,2) by blast
  then show ?thesis using a b c by (intro conjI)
qed


section \<open>Line drawer: trim\<close>

lemma stable_argsort_is_argsort: "is_argsort stable_argsort"
  unfolding is_argsort_def stable_argsort_def
  by (auto simp: sorted_sort_key)

lemma first_two_smallest:
  fixes n :: nat and f :: "nat \<Rightarrow> real"
  assumes d: "distinct p" and s: "set p = {0..<n}" and n: "2 \<le> n"
    and so: "sorted (map f p)"
  shows "\<exists>a b rest. p = a # b # rest \<and> a \<noteq> b \<and> a < n \<and> b < n
     \<and> (\<forall>k<n. k \<noteq> a \<longrightarrow> k \<noteq> b \<longrightarrow> f a \<le> f k \<and> f b \<le> f k)"
proof -
  have "length p = card (set p)" using d by (simp add: distinct_card)
  then have len: "length p = n" using s by simp
  obtain a p' where pa: "p = a # p'" using len n by (cases p) auto
  obtain b rest where pb: "p' = b # rest" using len n pa by (cases p') auto
  have p: "p = a # b # rest" using pa pb by simp
  have ab: "a \<noteq> b" using d p by simp
  have "a \<in> set p" "b \<in> set p" using p by simp_all
  then have mem: "a < n" "b < n" using s by simp_all
  have fab: "f a \<le> f b" using so p by simp
  have r: "\<forall>k \<in> set rest. f b \<le> f k" using so p by simp
  have "\<forall>k<n. k \<noteq> a \<longrightarrow> k \<noteq> b \<longrightarrow> f a \<le> f k \<and> f b \<le> f k"
  proof (intro allI impI)
    fix k assume k: "k < n" "k \<noteq> a" "k \<noteq> b"
    then have "k \<in> set p" using s by simp
    then have "k \<in> set rest" using p k by simp
    then have "f b \<le> f k" using r by simp
    then show "f a \<le> f k \<and> f b \<le> f k" using fab by simp
  qed
  then show ?thesis using p ab mem by blast
qed


lemma ld_trim_pair:
  assumes "ld_line s = Some l" and "length (ld_x s) = length (ld_y s)"
    and "take 2 (argsort (map2 (point_line_dist l) (ld_x s) (ld_y s))) = [a, b]"
    and "a < length (ld_x s)" and "b < length (ld_x s)"
  shows "ld_trim argsort s = Inr (trimmed s (min a b) (max a b))"
  using assms by (simp add: ld_trim_def trimmed_def Let_def min_def max_def)

text \<open>
  The distance that \<open>trim\<close> computes is the distance to the segment: it is attained at
  a point of the segment, and no point of the segment is nearer.
\<close>

lemma is_segment_dist_unique:
  assumes "is_segment_dist l p d" and "is_segment_dist l p d'"
  shows "d = d'"
proof -
  from assms(1) obtain u where u: "0 \<le> u" "u \<le> 1" "d = euclid p (seg_point l u)"
    unfolding is_segment_dist_def by blast
  from assms(2) obtain u' where u': "0 \<le> u'" "u' \<le> 1" "d' = euclid p (seg_point l u')"
    unfolding is_segment_dist_def by blast
  have "d' \<le> d" using assms(2) u unfolding is_segment_dist_def by blast
  moreover have "d \<le> d'" using assms(1) u' unfolding is_segment_dist_def by blast
  ultimately show ?thesis by simp
qed

text \<open>Completing the square in the parameter of the segment.\<close>

lemma square_completed:
  fixes X Y dx dy u t0 D :: real
  assumes "D = dx ^ 2 + dy ^ 2" and "t0 * D = X * dx + Y * dy"
  shows "(X - u * dx) ^ 2 + (Y - u * dy) ^ 2 = D * (u - t0) ^ 2 + (X ^ 2 + Y ^ 2 - D * t0 ^ 2)"
proof -
  have "(X - u * dx) ^ 2 + (Y - u * dy) ^ 2
        = X ^ 2 + Y ^ 2 - 2 * u * (X * dx + Y * dy) + u ^ 2 * (dx ^ 2 + dy ^ 2)"
    by (simp add: power2_eq_square algebra_simps)
  also have "\<dots> = X ^ 2 + Y ^ 2 - 2 * u * (t0 * D) + u ^ 2 * D"
    using assms by simp
  also have "\<dots> = D * (u - t0) ^ 2 + (X ^ 2 + Y ^ 2 - D * t0 ^ 2)"
    by (simp add: power2_eq_square algebra_simps)
  finally show ?thesis .
qed

lemma clamp_nearest:
  fixes t0 u :: real
  assumes "0 \<le> u" and "u \<le> 1"
  shows "(min (max t0 0) 1 - t0) ^ 2 \<le> (u - t0) ^ 2"
proof -
  have "\<bar>min (max t0 0) 1 - t0\<bar> \<le> \<bar>u - t0\<bar>"
    using assms by (simp add: min_def max_def abs_if split: if_splits)
  then show ?thesis by (simp only: abs_le_square_iff)
qed

lemma point_line_dist_is_euclid:
  "point_line_dist l xp yp =
     euclid (xp, yp)
       (seg_point l (min (max (((xp - fst (xdata l)) * (snd (xdata l) - fst (xdata l))
                                + (yp - fst (ydata l)) * (snd (ydata l) - fst (ydata l)))
                               / ((snd (xdata l) - fst (xdata l)) ^ 2
                                  + (snd (ydata l) - fst (ydata l)) ^ 2)) 0) 1))"
  by (simp add: point_line_dist_def euclid_def seg_point_def Let_def)

lemma point_line_dist_is_segment_dist:
  assumes "line_length l \<noteq> 0"
  shows "is_segment_dist l (xp, yp) (point_line_dist l xp yp)"
proof -
  define x0 where "x0 = fst (xdata l)"
  define y0 where "y0 = fst (ydata l)"
  define dx where "dx = snd (xdata l) - fst (xdata l)"
  define dy where "dy = snd (ydata l) - fst (ydata l)"
  define D where "D = dx ^ 2 + dy ^ 2"
  define t0 where "t0 = ((xp - x0) * dx + (yp - y0) * dy) / D"
  define tc where "tc = min (max t0 0) 1"
  have "sqrt D \<noteq> 0" using assms by (simp add: line_length_def D_def dx_def dy_def)
  then have D0: "D \<noteq> 0" by auto
  have "0 \<le> D" by (simp add: D_def)
  then have Dpos: "0 < D" using D0 by simp
  have t0D: "t0 * D = (xp - x0) * dx + (yp - y0) * dy" using D0 by (simp add: t0_def)
  have sq: "\<And>u. (fst (xp, yp) - fst (seg_point l u)) ^ 2 + (snd (xp, yp) - snd (seg_point l u)) ^ 2
      = D * (u - t0) ^ 2 + ((xp - x0) ^ 2 + (yp - y0) ^ 2 - D * t0 ^ 2)"
  proof -
    fix u
    have "(fst (xp, yp) - fst (seg_point l u)) ^ 2 + (snd (xp, yp) - snd (seg_point l u)) ^ 2
        = ((xp - x0) - u * dx) ^ 2 + ((yp - y0) - u * dy) ^ 2"
      by (simp add: seg_point_def x0_def y0_def dx_def dy_def algebra_simps)
    also have "\<dots> = D * (u - t0) ^ 2 + ((xp - x0) ^ 2 + (yp - y0) ^ 2 - D * t0 ^ 2)"
      using D_def t0D by (rule square_completed)
    finally show "(fst (xp, yp) - fst (seg_point l u)) ^ 2 + (snd (xp, yp) - snd (seg_point l u)) ^ 2
      = D * (u - t0) ^ 2 + ((xp - x0) ^ 2 + (yp - y0) ^ 2 - D * t0 ^ 2)" .
  qed
  have pd: "point_line_dist l xp yp = euclid (xp, yp) (seg_point l tc)"
    unfolding tc_def t0_def D_def dx_def dy_def x0_def y0_def
    by (rule point_line_dist_is_euclid)
  have tc01: "0 \<le> tc" "tc \<le> 1" by (simp_all add: tc_def)
  have least: "\<forall>u. 0 \<le> u \<and> u \<le> 1 \<longrightarrow> euclid (xp, yp) (seg_point l tc) \<le> euclid (xp, yp) (seg_point l u)"
  proof (intro allI impI)
    fix u :: real assume u: "0 \<le> u \<and> u \<le> 1"
    then have "(tc - t0) ^ 2 \<le> (u - t0) ^ 2" unfolding tc_def using clamp_nearest by blast
    then have "D * (tc - t0) ^ 2 \<le> D * (u - t0) ^ 2" using Dpos by simp
    then show "euclid (xp, yp) (seg_point l tc) \<le> euclid (xp, yp) (seg_point l u)"
      unfolding euclid_def sq by simp
  qed
  show ?thesis
    unfolding is_segment_dist_def pd using tc01 least by blast
qed


lemma ld_trim_chooses:
  assumes "is_argsort argsort"
    and "ld_line s = Some l"
    and "length (ld_x s) = length (ld_y s)"
    and "2 \<le> length (ld_x s)"
  shows "\<exists>i j. i < j \<and> j < length (ld_x s)
     \<and> ld_trim argsort s = Inr (trimmed s i j)
     \<and> (\<forall>k<length (ld_x s). k \<noteq> i \<longrightarrow> k \<noteq> j \<longrightarrow>
           sample_dist s l i \<le> sample_dist s l k \<and> sample_dist s l j \<le> sample_dist s l k)"
proof -
  let ?n = "length (ld_x s)"
  let ?ds = "map2 (point_line_dist l) (ld_x s) (ld_y s)"
  have len: "length ?ds = ?n" using assms(3) by simp
  have nth: "\<And>k. k < ?n \<Longrightarrow> ?ds ! k = sample_dist s l k"
    using assms(3) by (simp add: sample_dist_def)
  have d: "distinct (argsort ?ds)" and st: "set (argsort ?ds) = {0..<?n}"
    and so: "sorted (map ((!) ?ds) (argsort ?ds))"
    using assms(1) len unfolding is_argsort_def by metis+
  from first_two_smallest [OF d st assms(4) so] obtain a b rest where
    p: "argsort ?ds = a # b # rest" and ab: "a \<noteq> b" and an: "a < ?n" and bn: "b < ?n"
    and least: "\<forall>k<?n. k \<noteq> a \<longrightarrow> k \<noteq> b \<longrightarrow> ?ds ! a \<le> ?ds ! k \<and> ?ds ! b \<le> ?ds ! k"
    by blast
  have tk: "take 2 (argsort ?ds) = [a, b]" using p by simp
  have res: "ld_trim argsort s = Inr (trimmed s (min a b) (max a b))"
    using assms(2,3) tk an bn by (rule ld_trim_pair [where argsort = argsort])
  have lt: "min a b < max a b" using ab by (simp add: min_def max_def)
  have mx: "max a b < ?n" using an bn by simp
  have least': "\<forall>k<?n. k \<noteq> min a b \<longrightarrow> k \<noteq> max a b \<longrightarrow>
      sample_dist s l (min a b) \<le> sample_dist s l k \<and> sample_dist s l (max a b) \<le> sample_dist s l k"
  proof (intro allI impI)
    fix k assume k: "k < ?n" "k \<noteq> min a b" "k \<noteq> max a b"
    then have "k \<noteq> a" "k \<noteq> b" by (auto simp: min_def max_def split: if_splits)
    then have "?ds ! a \<le> ?ds ! k \<and> ?ds ! b \<le> ?ds ! k" using least k(1) by blast
    then have "sample_dist s l a \<le> sample_dist s l k \<and> sample_dist s l b \<le> sample_dist s l k"
      using nth an bn k(1) by simp
    then show "sample_dist s l (min a b) \<le> sample_dist s l k
        \<and> sample_dist s l (max a b) \<le> sample_dist s l k"
      by (simp add: min_def max_def)
  qed
  show ?thesis using lt mx res least' by blast
qed

lemma sample_dist_is_segment_dist:
  assumes "line_length l \<noteq> 0"
  shows "is_segment_dist l (sample s k) (sample_dist s l k)"
  unfolding sample_def sample_dist_def
  using assms by (rule point_line_dist_is_segment_dist)

lemma sample_in_curve:
  assumes "length (ld_x s) = length (ld_y s)" and "k < length (ld_x s)"
  shows "sample s k \<in> set (zip (ld_x s) (ld_y s))"
  unfolding sample_def using assms by (metis in_set_zip fst_conv snd_conv)

text \<open>
  C8.  \<open>trim\<close> on an existing line of positive length, with a curve of at least two
  samples and any argsort that returns a sorting permutation of the indices: the call
  returns the state whose line runs from sample \<open>i\<close> to sample \<open>j\<close> of the curve with
  \<open>i < j\<close>, so both endpoints are curve samples in the order of the curve; and every
  other sample is at least as far from the segment as each of the two, where the
  distance of a sample to the segment is the least Euclidean distance to a point of the
  segment.  The distance that the code computes for each sample is that distance.
\<close>

theorem trim_endpoints:
  assumes "is_argsort argsort"
    and "ld_line s = Some l"
    and "length (ld_x s) = length (ld_y s)"
    and "2 \<le> length (ld_x s)"
    and "line_length l \<noteq> 0"
  shows "\<exists>i j. i < j \<and> j < length (ld_x s)
     \<and> ld_trim argsort s = Inr (trimmed s i j)
     \<and> ld_line (trimmed s i j)
         = Some \<lparr>xdata = (fst (sample s i), fst (sample s j)),
                 ydata = (snd (sample s i), snd (sample s j))\<rparr>
     \<and> sample s i \<in> set (zip (ld_x s) (ld_y s))
     \<and> sample s j \<in> set (zip (ld_x s) (ld_y s))
     \<and> (\<forall>k<length (ld_x s). k \<noteq> i \<longrightarrow> k \<noteq> j \<longrightarrow>
          (\<forall>di dj dk. is_segment_dist l (sample s i) di \<longrightarrow> is_segment_dist l (sample s j) dj
             \<longrightarrow> is_segment_dist l (sample s k) dk \<longrightarrow> di \<le> dk \<and> dj \<le> dk))
     \<and> (\<forall>k<length (ld_x s). is_segment_dist l (sample s k) (point_line_dist l (ld_x s ! k) (ld_y s ! k)))"
proof -
  let ?n = "length (ld_x s)"
  from ld_trim_chooses [OF assms(1-4)] obtain i j where
    ij: "i < j" "j < ?n" "ld_trim argsort s = Inr (trimmed s i j)"
    and least: "\<forall>k<?n. k \<noteq> i \<longrightarrow> k \<noteq> j \<longrightarrow>
           sample_dist s l i \<le> sample_dist s l k \<and> sample_dist s l j \<le> sample_dist s l k"
    by blast
  have i: "i < ?n" using ij by simp
  have line: "ld_line (trimmed s i j)
         = Some \<lparr>xdata = (fst (sample s i), fst (sample s j)),
                 ydata = (snd (sample s i), snd (sample s j))\<rparr>"
    by (simp add: trimmed_def sample_def)
  have geo: "\<forall>k<?n. k \<noteq> i \<longrightarrow> k \<noteq> j \<longrightarrow>
          (\<forall>di dj dk. is_segment_dist l (sample s i) di \<longrightarrow> is_segment_dist l (sample s j) dj
             \<longrightarrow> is_segment_dist l (sample s k) dk \<longrightarrow> di \<le> dk \<and> dj \<le> dk)"
  proof (intro allI impI)
    fix k di dj dk
    assume k: "k < ?n" "k \<noteq> i" "k \<noteq> j"
      and d: "is_segment_dist l (sample s i) di" "is_segment_dist l (sample s j) dj"
        "is_segment_dist l (sample s k) dk"
    have "di = sample_dist s l i"
      using d(1) sample_dist_is_segment_dist [OF assms(5)] by (rule is_segment_dist_unique)
    moreover have "dj = sample_dist s l j"
      using d(2) sample_dist_is_segment_dist [OF assms(5)] by (rule is_segment_dist_unique)
    moreover have "dk = sample_dist s l k"
      using d(3) sample_dist_is_segment_dist [OF assms(5)] by (rule is_segment_dist_unique)
    ultimately show "di \<le> dk \<and> dj \<le> dk" using least k by simp
  qed
  have ref: "\<forall>k<?n. is_segment_dist l (sample s k) (point_line_dist l (ld_x s ! k) (ld_y s ! k))"
    using sample_dist_is_segment_dist [OF assms(5)] by (simp add: sample_dist_def)
  show ?thesis
    using ij line sample_in_curve [OF assms(3) i] sample_in_curve [OF assms(3) ij(2)] geo ref
    by blast
qed

lemma ld_example_dists:
  "map2 (point_line_dist \<lparr>xdata = (0, 4), ydata = (0, 0)\<rparr>) (ld_x ld_example) (ld_y ld_example)
   = [1, 0, sqrt 2, sqrt 5]"
  by (simp add: ld_example_def point_line_dist_def Let_def)

lemma ld_example_argsort:
  "stable_argsort [1, 0, sqrt 2, sqrt 5] = [1, 0, 2, 3]"
  by (simp add: stable_argsort_def upt_rec [of _ "numeral _"] upt_rec [of _ "Suc _"])

lemma ld_example_trim:
  "ld_trim stable_argsort ld_example = Inr (trimmed ld_example 0 1)"
proof -
  have "ld_trim stable_argsort ld_example = Inr (trimmed ld_example (min 1 0) (max 1 0))"
  proof (rule ld_trim_pair)
    show "ld_line ld_example = Some \<lparr>xdata = (0, 4), ydata = (0, 0)\<rparr>"
      by (simp add: ld_example_def)
    show "length (ld_x ld_example) = length (ld_y ld_example)"
      by (simp add: ld_example_def)
    show "take 2 (stable_argsort (map2 (point_line_dist \<lparr>xdata = (0, 4), ydata = (0, 0)\<rparr>)
        (ld_x ld_example) (ld_y ld_example))) = [1, 0]"
      by (simp only: ld_example_dists ld_example_argsort) simp
    show "1 < length (ld_x ld_example)" "0 < length (ld_x ld_example)"
      by (simp_all add: ld_example_def)
  qed
  then show ?thesis by simp
qed

text \<open>
  The witness: the distances of the four samples to the segment from \<open>(0, 0)\<close> to
  \<open>(4, 0)\<close> are \<open>1\<close>, \<open>0\<close>, \<open>sqrt 2\<close> and \<open>sqrt 5\<close>; \<open>trim\<close> with the stable argsort
  takes the samples 1 and 0 and stores the line from sample 0 to sample 1.
\<close>

theorem trim_endpoints_witness:
  "is_argsort stable_argsort
   \<and> ld_line ld_example = Some \<lparr>xdata = (0, 4), ydata = (0, 0)\<rparr>
   \<and> length (ld_x ld_example) = length (ld_y ld_example)
   \<and> 2 \<le> length (ld_x ld_example)
   \<and> line_length \<lparr>xdata = (0, 4), ydata = (0, 0)\<rparr> \<noteq> 0
   \<and> ld_trim stable_argsort ld_example = Inr (trimmed ld_example 0 1)
   \<and> is_segment_dist \<lparr>xdata = (0, 4), ydata = (0, 0)\<rparr> (1, 1) 1
   \<and> is_segment_dist \<lparr>xdata = (0, 4), ydata = (0, 0)\<rparr> (2, 0) 0
   \<and> is_segment_dist \<lparr>xdata = (0, 4), ydata = (0, 0)\<rparr> (5, 1) (sqrt 2)
   \<and> is_segment_dist \<lparr>xdata = (0, 4), ydata = (0, 0)\<rparr> (6, 1) (sqrt 5)
   \<and> (\<exists>i j. i < j \<and> j < length (ld_x ld_example)
         \<and> ld_trim stable_argsort ld_example = Inr (trimmed ld_example i j))"
proof -
  let ?l = "\<lparr>xdata = (0, 4), ydata = (0, 0)\<rparr>"
  have a: "ld_line ld_example = Some ?l"
    and b: "length (ld_x ld_example) = length (ld_y ld_example)"
    and c: "2 \<le> length (ld_x ld_example)"
    by (simp_all add: ld_example_def)
  have d: "line_length ?l \<noteq> 0"
    by (simp add: line_length_def)
  note T = trim_endpoints [OF stable_argsort_is_argsort a b c d]
  from T have e: "\<exists>i j. i < j \<and> j < length (ld_x ld_example)
         \<and> ld_trim stable_argsort ld_example = Inr (trimmed ld_example i j)"
    by blast
  from T have r: "\<forall>k<length (ld_x ld_example).
      is_segment_dist ?l (sample ld_example k)
        (point_line_dist ?l (ld_x ld_example ! k) (ld_y ld_example ! k))"
    by blast
  have n: "(0::nat) < length (ld_x ld_example)" "1 < length (ld_x ld_example)"
    "2 < length (ld_x ld_example)" "3 < length (ld_x ld_example)"
    by (simp_all add: ld_example_def)
  have v: "sample ld_example 0 = (1, 1)" "sample ld_example 1 = (2, 0)"
    "sample ld_example 2 = (5, 1)" "sample ld_example 3 = (6, 1)"
    "point_line_dist ?l (ld_x ld_example ! 0) (ld_y ld_example ! 0) = 1"
    "point_line_dist ?l (ld_x ld_example ! 1) (ld_y ld_example ! 1) = 0"
    "point_line_dist ?l (ld_x ld_example ! 2) (ld_y ld_example ! 2) = sqrt 2"
    "point_line_dist ?l (ld_x ld_example ! 3) (ld_y ld_example ! 3) = sqrt 5"
    by (simp_all add: ld_example_def sample_def point_line_dist_def Let_def)
  have s0: "is_segment_dist ?l (1, 1) 1" using r n(1) v(1,5) by metis
  have s1: "is_segment_dist ?l (2, 0) 0" using r n(2) v(2,6) by metis
  have s2: "is_segment_dist ?l (5, 1) (sqrt 2)" using r n(3) v(3,7) by metis
  have s3: "is_segment_dist ?l (6, 1) (sqrt 5)" using r n(4) v(4,8) by metis
  show ?thesis
    using stable_argsort_is_argsort a b c d ld_example_trim s0 s1 s2 s3 e by (intro conjI)
qed

section \<open>SHM submit\<close>

lemma positive_keys_have_defaults:
  assumes "key \<in> set positive_keys"
  shows "\<exists>d. map_of defaults key = Some d \<and> 0 < d"
  using assms by (auto simp: positive_keys_def defaults_def)

lemma shm_accepted_positive:
  assumes "key \<in> set positive_keys"
  shows "\<exists>x. shm_accepted key v = Some x \<and> 0 < x"
  using assms positive_keys_have_defaults [OF assms] by (auto simp: shm_accepted_def not_le)

lemma shm_accepted_free:
  assumes "key \<notin> set positive_keys"
  shows "shm_accepted key v = Some v"
  using assms by (simp add: shm_accepted_def)

lemma set_val_keys [simp]: "map fst (set_val key v sl) = map fst sl"
  by (induction sl) (auto simp: set_val_def)

lemma set_val_key_set [simp]: "fst ` set (set_val key v sl) = fst ` set sl"
  by (induction sl) (auto simp: set_val_def)

lemma set_val_other:
  assumes "k \<noteq> key"
  shows "map_of (set_val key v sl) k = map_of sl k"
  using assms by (induction sl) (auto simp: set_val_def)

lemma set_val_same:
  assumes "key \<in> fst ` set sl"
  shows "map_of (set_val key v sl) key = Some v"
  using assms by (induction sl) (auto simp: set_val_def)

lemma shm_submit_keys_result:
  assumes "distinct ks" and "set ks \<subseteq> fst ` set (shm_sliders s)"
  shows "snd (shm_submit_keys ks s) = None
     \<and> (\<forall>k. shm_params (fst (shm_submit_keys ks s)) k =
            (if k \<in> set ks then Option.bind (map_of (shm_sliders s) k) (shm_accepted k)
             else shm_params s k))
     \<and> (\<forall>k. map_of (shm_sliders (fst (shm_submit_keys ks s))) k =
            (if k \<in> set ks then Option.bind (map_of (shm_sliders s) k) (shm_accepted k)
             else map_of (shm_sliders s) k))
     \<and> shm_animating (fst (shm_submit_keys ks s)) = shm_animating s"
  using assms
proof (induction ks arbitrary: s)
  case Nil
  then show ?case by simp
next
  case (Cons key keys)
  have kin: "key \<in> fst ` set (shm_sliders s)" using Cons.prems(2) by simp
  then obtain val where val: "map_of (shm_sliders s) key = Some val"
    by (metis map_of_eq_None_iff not_Some_eq)
  have dk: "distinct keys" and nk: "key \<notin> set keys" using Cons.prems(1) by simp_all
  show ?case
  proof (cases "key \<in> set positive_keys \<and> val \<le> 0")
    case True
    then obtain d where d: "map_of defaults key = Some d"
      using positive_keys_have_defaults by blast
    let ?s1 = "s\<lparr>shm_sliders := set_val key d (shm_sliders s),
                  shm_params := (shm_params s)(key \<mapsto> d)\<rparr>"
    have step: "shm_submit_keys (key # keys) s = shm_submit_keys keys ?s1"
      using val True d by simp
    have acc: "shm_accepted key val = Some d" using True d by (simp add: shm_accepted_def)
    have sub: "set keys \<subseteq> fst ` set (shm_sliders ?s1)" using Cons.prems(2) by simp
    note ih = Cons.IH [OF dk sub]
    have p: "\<forall>k. shm_params (fst (shm_submit_keys keys ?s1)) k =
            (if k \<in> set (key # keys) then Option.bind (map_of (shm_sliders s) k) (shm_accepted k)
             else shm_params s k)"
    proof
      fix k
      show "shm_params (fst (shm_submit_keys keys ?s1)) k =
            (if k \<in> set (key # keys) then Option.bind (map_of (shm_sliders s) k) (shm_accepted k)
             else shm_params s k)"
      proof (cases "k = key")
        case True
        then show ?thesis using ih nk val acc by simp
      next
        case False
        then show ?thesis using ih by (simp add: set_val_other)
      qed
    qed
    have q: "\<forall>k. map_of (shm_sliders (fst (shm_submit_keys keys ?s1))) k =
            (if k \<in> set (key # keys) then Option.bind (map_of (shm_sliders s) k) (shm_accepted k)
             else map_of (shm_sliders s) k)"
    proof
      fix k
      show "map_of (shm_sliders (fst (shm_submit_keys keys ?s1))) k =
            (if k \<in> set (key # keys) then Option.bind (map_of (shm_sliders s) k) (shm_accepted k)
             else map_of (shm_sliders s) k)"
      proof (cases "k = key")
        case True
        then show ?thesis using ih nk val acc kin by (simp add: set_val_same)
      next
        case False
        then show ?thesis using ih by (simp add: set_val_other)
      qed
    qed
    show ?thesis unfolding step using ih p q by simp
  next
    case False
    let ?s1 = "s\<lparr>shm_params := (shm_params s)(key \<mapsto> val)\<rparr>"
    have step: "shm_submit_keys (key # keys) s = shm_submit_keys keys ?s1"
      using val False by auto
    have acc: "shm_accepted key val = Some val" using False by (auto simp: shm_accepted_def)
    have sub: "set keys \<subseteq> fst ` set (shm_sliders ?s1)" using Cons.prems(2) by simp
    note ih = Cons.IH [OF dk sub]
    have p: "\<forall>k. shm_params (fst (shm_submit_keys keys ?s1)) k =
            (if k \<in> set (key # keys) then Option.bind (map_of (shm_sliders s) k) (shm_accepted k)
             else shm_params s k)"
    proof
      fix k
      show "shm_params (fst (shm_submit_keys keys ?s1)) k =
            (if k \<in> set (key # keys) then Option.bind (map_of (shm_sliders s) k) (shm_accepted k)
             else shm_params s k)"
      proof (cases "k = key")
        case True
        then show ?thesis using ih nk val acc by simp
      next
        case False
        then show ?thesis using ih by simp
      qed
    qed
    have q: "\<forall>k. map_of (shm_sliders (fst (shm_submit_keys keys ?s1))) k =
            (if k \<in> set (key # keys) then Option.bind (map_of (shm_sliders s) k) (shm_accepted k)
             else map_of (shm_sliders s) k)"
    proof
      fix k
      show "map_of (shm_sliders (fst (shm_submit_keys keys ?s1))) k =
            (if k \<in> set (key # keys) then Option.bind (map_of (shm_sliders s) k) (shm_accepted k)
             else map_of (shm_sliders s) k)"
      proof (cases "k = key")
        case True
        then show ?thesis using ih nk val acc by simp
      next
        case False
        then show ?thesis using ih by simp
      qed
    qed
    show ?thesis unfolding step using ih p q by simp
  qed
qed


lemma compute_shm_animating [simp]:
  "compute_shm (s\<lparr>shm_animating := b\<rparr>) = compute_shm s"
  by (simp add: compute_shm_def)

lemma compute_shm_positive:
  assumes "shm_params s ''Amplitude'' = Some A" and "shm_params s ''Phase'' = Some phi"
    and "shm_params s ''Mass'' = Some m" and "0 < m"
    and "shm_params s ''Spring Constant'' = Some k" and "0 < k"
    and "shm_params s ''Duration'' = Some duration" and "shm_params s ''FPS'' = Some fps"
  shows "compute_shm s = (if py_int (fps * duration) \<le> 0 then Some ValueError else None)"
proof -
  have "\<not> k / m < 0" using assms(4,6) by (simp add: not_less)
  then show ?thesis using assms by (simp add: compute_shm_def)
qed

lemma shm_submit_parts:
  assumes "distinct (map fst (shm_sliders s))"
  shows "shm_params (fst (shm_submit s)) = shm_params (fst (shm_submit_keys (map fst (shm_sliders s)) s))"
    and "shm_sliders (fst (shm_submit s)) = shm_sliders (fst (shm_submit_keys (map fst (shm_sliders s)) s))"
    and "snd (shm_submit s) = compute_shm (fst (shm_submit s))"
    and "snd (shm_submit s) = None \<Longrightarrow> \<not> shm_animating (fst (shm_submit s))"
    and "snd (shm_submit s) \<noteq> None \<Longrightarrow> shm_animating (fst (shm_submit s)) = shm_animating s"
proof -
  have sub: "set (map fst (shm_sliders s)) \<subseteq> fst ` set (shm_sliders s)" by simp
  obtain s1 e where r: "shm_submit_keys (map fst (shm_sliders s)) s = (s1, e)"
    by (cases "shm_submit_keys (map fst (shm_sliders s)) s")
  have e: "e = None" and an: "shm_animating s1 = shm_animating s"
    using shm_submit_keys_result [OF assms sub] r by simp_all
  show "shm_params (fst (shm_submit s)) = shm_params (fst (shm_submit_keys (map fst (shm_sliders s)) s))"
    using r e by (simp add: shm_submit_def split: option.splits)
  show "shm_sliders (fst (shm_submit s)) = shm_sliders (fst (shm_submit_keys (map fst (shm_sliders s)) s))"
    using r e by (simp add: shm_submit_def split: option.splits)
  show "snd (shm_submit s) = compute_shm (fst (shm_submit s))"
    using r e by (simp add: shm_submit_def split: option.splits)
  show "snd (shm_submit s) = None \<Longrightarrow> \<not> shm_animating (fst (shm_submit s))"
    using r e by (simp add: shm_submit_def split: option.splits)
  show "snd (shm_submit s) \<noteq> None \<Longrightarrow> shm_animating (fst (shm_submit s)) = shm_animating s"
    using r e an by (simp add: shm_submit_def split: option.splits)
qed

lemma shm_submit_fields:
  assumes "distinct (map fst (shm_sliders s))" and "(k, v) \<in> set (shm_sliders s)"
  shows "shm_params (fst (shm_submit s)) k = shm_accepted k v"
    and "map_of (shm_sliders (fst (shm_submit s))) k = shm_accepted k v"
proof -
  have sub: "set (map fst (shm_sliders s)) \<subseteq> fst ` set (shm_sliders s)" by simp
  have m: "map_of (shm_sliders s) k = Some v" using assms by simp
  have kin: "k \<in> set (map fst (shm_sliders s))" using assms(2) by force
  note L = shm_submit_keys_result [OF assms(1) sub]
  show "shm_params (fst (shm_submit s)) k = shm_accepted k v"
    using L m kin by (simp add: shm_submit_parts(1) [OF assms(1)])
  show "map_of (shm_sliders (fst (shm_submit s))) k = shm_accepted k v"
    using L m kin by (simp add: shm_submit_parts(2) [OF assms(1)])
qed

lemma shm_submit_other:
  assumes "distinct (map fst (shm_sliders s))" and "k \<notin> fst ` set (shm_sliders s)"
  shows "shm_params (fst (shm_submit s)) k = shm_params s k"
proof -
  have sub: "set (map fst (shm_sliders s)) \<subseteq> fst ` set (shm_sliders s)" by simp
  show ?thesis
    using shm_submit_keys_result [OF assms(1) sub] assms(2)
    by (simp add: shm_submit_parts(1) [OF assms(1)])
qed


lemma six_sliders_have:
  assumes "map fst (shm_sliders s) = map fst defaults" and "key \<in> set (map fst defaults)"
  shows "\<exists>v. (key, v) \<in> set (shm_sliders s)"
proof -
  have "key \<in> set (map fst (shm_sliders s))" using assms by simp
  then show ?thesis by auto
qed

lemma shm_submit_six:
  assumes "distinct (map fst (shm_sliders s))"
    and "map fst (shm_sliders s) = map fst defaults"
  shows "\<exists>fps duration.
      shm_params (fst (shm_submit s)) ''FPS'' = Some fps
      \<and> shm_params (fst (shm_submit s)) ''Duration'' = Some duration
      \<and> 0 < fps \<and> 0 < duration
      \<and> snd (shm_submit s) = (if py_int (fps * duration) \<le> 0 then Some ValueError else None)"
proof -
  let ?p = "shm_params (fst (shm_submit s))"
  have keys: "''Amplitude'' \<in> set (map fst defaults)" "''Mass'' \<in> set (map fst defaults)"
    "''Spring Constant'' \<in> set (map fst defaults)" "''Phase'' \<in> set (map fst defaults)"
    "''Duration'' \<in> set (map fst defaults)" "''FPS'' \<in> set (map fst defaults)"
    by (simp_all add: defaults_def)
  have pos: "''Mass'' \<in> set positive_keys" "''Spring Constant'' \<in> set positive_keys"
    "''Duration'' \<in> set positive_keys" "''FPS'' \<in> set positive_keys"
    "''Amplitude'' \<notin> set positive_keys" "''Phase'' \<notin> set positive_keys"
    by (simp_all add: positive_keys_def)
  from six_sliders_have [OF assms(2) keys(1)] obtain vA where "(''Amplitude'', vA) \<in> set (shm_sliders s)" ..
  then have A: "?p ''Amplitude'' = Some vA"
    using shm_submit_fields(1) [OF assms(1)] shm_accepted_free [OF pos(5)] by simp
  from six_sliders_have [OF assms(2) keys(4)] obtain vP where "(''Phase'', vP) \<in> set (shm_sliders s)" ..
  then have P: "?p ''Phase'' = Some vP"
    using shm_submit_fields(1) [OF assms(1)] shm_accepted_free [OF pos(6)] by simp
  from six_sliders_have [OF assms(2) keys(2)] obtain vm where "(''Mass'', vm) \<in> set (shm_sliders s)" ..
  then have "?p ''Mass'' = shm_accepted ''Mass'' vm"
    using shm_submit_fields(1) [OF assms(1)] by simp
  then obtain m where M: "?p ''Mass'' = Some m" "0 < m"
    using shm_accepted_positive [OF pos(1), of vm] by auto
  from six_sliders_have [OF assms(2) keys(3)] obtain vk where "(''Spring Constant'', vk) \<in> set (shm_sliders s)" ..
  then have "?p ''Spring Constant'' = shm_accepted ''Spring Constant'' vk"
    using shm_submit_fields(1) [OF assms(1)] by simp
  then obtain k where K: "?p ''Spring Constant'' = Some k" "0 < k"
    using shm_accepted_positive [OF pos(2), of vk] by auto
  from six_sliders_have [OF assms(2) keys(5)] obtain vd where "(''Duration'', vd) \<in> set (shm_sliders s)" ..
  then have "?p ''Duration'' = shm_accepted ''Duration'' vd"
    using shm_submit_fields(1) [OF assms(1)] by simp
  then obtain duration where D: "?p ''Duration'' = Some duration" "0 < duration"
    using shm_accepted_positive [OF pos(3), of vd] by auto
  from six_sliders_have [OF assms(2) keys(6)] obtain vf where "(''FPS'', vf) \<in> set (shm_sliders s)" ..
  then have "?p ''FPS'' = shm_accepted ''FPS'' vf"
    using shm_submit_fields(1) [OF assms(1)] by simp
  then obtain fps where F: "?p ''FPS'' = Some fps" "0 < fps"
    using shm_accepted_positive [OF pos(4), of vf] by auto
  have "snd (shm_submit s) = compute_shm (fst (shm_submit s))"
    by (rule shm_submit_parts(3) [OF assms(1)])
  also have "\<dots> = (if py_int (fps * duration) \<le> 0 then Some ValueError else None)"
    using A P M K D(1) F(1) by (rule compute_shm_positive)
  finally show ?thesis using F D by blast
qed

text \<open>
  C9.  Whatever the sliders hold, and whether or not the call then raises, \<open>submit\<close>
  leaves every field of the batch decided on its own: for every slider, the parameter of
  its key, and the slider itself, hold the default when the key is one of Mass, Spring
  Constant, Duration and FPS and the value is \<open>\<le> 0\<close>, and the submitted value otherwise;
  parameters without a slider keep their value.  The loop raises nothing.  The only
  exception of the call is the one \<open>compute_shm\<close> raises on the new parameters; without
  one the animation is stopped, with one \<open>animating\<close> is as before.  With the six sliders
  of the program the new FPS and Duration are positive, and the call raises exactly when
  \<open>int(FPS * Duration)\<close> is 0, and then \<open>ValueError\<close>.
\<close>

theorem submit_fieldwise:
  assumes "distinct (map fst (shm_sliders s))"
  shows "(\<forall>(k, v) \<in> set (shm_sliders s).
            shm_params (fst (shm_submit s)) k = shm_accepted k v
            \<and> map_of (shm_sliders (fst (shm_submit s))) k = shm_accepted k v)
     \<and> (\<forall>k. k \<notin> fst ` set (shm_sliders s) \<longrightarrow>
            shm_params (fst (shm_submit s)) k = shm_params s k)
     \<and> snd (shm_submit s) = compute_shm (fst (shm_submit s))
     \<and> (snd (shm_submit s) = None \<longrightarrow> \<not> shm_animating (fst (shm_submit s)))
     \<and> (snd (shm_submit s) \<noteq> None \<longrightarrow>
            shm_animating (fst (shm_submit s)) = shm_animating s)
     \<and> (map fst (shm_sliders s) = map fst defaults \<longrightarrow>
          (\<exists>fps duration.
              shm_params (fst (shm_submit s)) ''FPS'' = Some fps
              \<and> shm_params (fst (shm_submit s)) ''Duration'' = Some duration
              \<and> 0 < fps \<and> 0 < duration
              \<and> snd (shm_submit s)
                  = (if py_int (fps * duration) \<le> 0 then Some ValueError else None)))"
proof -
  have 1: "\<forall>(k, v) \<in> set (shm_sliders s).
            shm_params (fst (shm_submit s)) k = shm_accepted k v
            \<and> map_of (shm_sliders (fst (shm_submit s))) k = shm_accepted k v"
    using shm_submit_fields [OF assms] by blast
  have 2: "\<forall>k. k \<notin> fst ` set (shm_sliders s) \<longrightarrow>
            shm_params (fst (shm_submit s)) k = shm_params s k"
    using shm_submit_other [OF assms] by blast
  show ?thesis
    using 1 2 shm_submit_parts(3-5) [OF assms] shm_submit_six [OF assms] by blast
qed


lemma shm_example_sliders:
  "shm_sliders (shm_with_sliders [2, - 1, 3, 1 / 2, 0, 30]) =
     [(''Amplitude'', 2), (''Mass'', - 1), (''Spring Constant'', 3),
      (''Phase'', 1 / 2), (''Duration'', 0), (''FPS'', 30)]"
  "shm_sliders (shm_with_sliders [1, - 1, 1, 0, 1 / 2, 1]) =
     [(''Amplitude'', 1), (''Mass'', - 1), (''Spring Constant'', 1),
      (''Phase'', 0), (''Duration'', 1 / 2), (''FPS'', 1)]"
  by (simp_all add: shm_with_sliders_def defaults_def)

lemma shm_example_keys:
  "map fst (shm_sliders (shm_with_sliders [2, - 1, 3, 1 / 2, 0, 30])) = map fst defaults"
  "map fst (shm_sliders (shm_with_sliders [1, - 1, 1, 0, 1 / 2, 1])) = map fst defaults"
  by (simp_all add: shm_with_sliders_def defaults_def)

lemma shm_example_accepted:
  "shm_accepted ''Amplitude'' 2 = Some 2"
  "shm_accepted ''Mass'' (- 1) = Some 1"
  "shm_accepted ''Spring Constant'' 3 = Some 3"
  "shm_accepted ''Phase'' (1 / 2) = Some (1 / 2)"
  "shm_accepted ''Duration'' 0 = Some 10"
  "shm_accepted ''FPS'' 30 = Some 30"
  "shm_accepted ''Duration'' (1 / 2) = Some (1 / 2)"
  "shm_accepted ''FPS'' 1 = Some 1"
  by (simp_all add: shm_accepted_def positive_keys_def defaults_def)

text \<open>
  The witness has two batches.  In the first, Mass \<open>- 1\<close> and Duration \<open>0\<close> fall back to
  their defaults 1 and 10, the other four fields are taken as submitted, nothing is
  raised and the animation is stopped.  In the second, Mass \<open>- 1\<close> falls back to 1,
  Duration \<open>0.5\<close> and FPS \<open>1\<close> are taken as submitted, and \<open>compute_shm\<close> raises
  \<open>ValueError\<close> on them, with the animation still running.
\<close>

theorem submit_fieldwise_witness:
  "distinct (map fst (shm_sliders (shm_with_sliders [2, - 1, 3, 1 / 2, 0, 30])))
   \<and> shm_params (fst (shm_submit (shm_with_sliders [2, - 1, 3, 1 / 2, 0, 30]))) ''Amplitude'' = Some 2
   \<and> shm_params (fst (shm_submit (shm_with_sliders [2, - 1, 3, 1 / 2, 0, 30]))) ''Mass'' = Some 1
   \<and> shm_params (fst (shm_submit (shm_with_sliders [2, - 1, 3, 1 / 2, 0, 30]))) ''Spring Constant'' = Some 3
   \<and> shm_params (fst (shm_submit (shm_with_sliders [2, - 1, 3, 1 / 2, 0, 30]))) ''Phase'' = Some (1 / 2)
   \<and> shm_params (fst (shm_submit (shm_with_sliders [2, - 1, 3, 1 / 2, 0, 30]))) ''Duration'' = Some 10
   \<and> shm_params (fst (shm_submit (shm_with_sliders [2, - 1, 3, 1 / 2, 0, 30]))) ''FPS'' = Some 30
   \<and> map_of (shm_sliders (fst (shm_submit (shm_with_sliders [2, - 1, 3, 1 / 2, 0, 30])))) ''Mass'' = Some 1
   \<and> snd (shm_submit (shm_with_sliders [2, - 1, 3, 1 / 2, 0, 30])) = None
   \<and> shm_animating (shm_with_sliders [2, - 1, 3, 1 / 2, 0, 30])
   \<and> \<not> shm_animating (fst (shm_submit (shm_with_sliders [2, - 1, 3, 1 / 2, 0, 30])))
   \<and> distinct (map fst (shm_sliders (shm_with_sliders [1, - 1, 1, 0, 1 / 2, 1])))
   \<and> shm_params (fst (shm_submit (shm_with_sliders [1, - 1, 1, 0, 1 / 2, 1]))) ''Mass'' = Some 1
   \<and> shm_params (fst (shm_submit (shm_with_sliders [1, - 1, 1, 0, 1 / 2, 1]))) ''Duration'' = Some (1 / 2)
   \<and> shm_params (fst (shm_submit (shm_with_sliders [1, - 1, 1, 0, 1 / 2, 1]))) ''FPS'' = Some 1
   \<and> snd (shm_submit (shm_with_sliders [1, - 1, 1, 0, 1 / 2, 1])) = Some ValueError
   \<and> shm_animating (fst (shm_submit (shm_with_sliders [1, - 1, 1, 0, 1 / 2, 1])))"
proof -
  let ?w = "shm_with_sliders [2, - 1, 3, 1 / 2, 0, 30]"
  let ?u = "shm_with_sliders [1, - 1, 1, 0, 1 / 2, 1]"
  have dw: "distinct (map fst (shm_sliders ?w))" and du: "distinct (map fst (shm_sliders ?u))"
    by (simp_all add: shm_example_sliders)
  have an: "shm_animating ?w" "shm_animating ?u" by (simp_all add: shm_with_sliders_def)
  note W = submit_fieldwise [OF dw]
  note U = submit_fieldwise [OF du]
  from W have wf: "\<forall>(k, v) \<in> set (shm_sliders ?w).
      shm_params (fst (shm_submit ?w)) k = shm_accepted k v
      \<and> map_of (shm_sliders (fst (shm_submit ?w))) k = shm_accepted k v"
    by blast
  have w: "shm_params (fst (shm_submit ?w)) ''Amplitude'' = Some 2"
    "shm_params (fst (shm_submit ?w)) ''Mass'' = Some 1"
    "shm_params (fst (shm_submit ?w)) ''Spring Constant'' = Some 3"
    "shm_params (fst (shm_submit ?w)) ''Phase'' = Some (1 / 2)"
    "shm_params (fst (shm_submit ?w)) ''Duration'' = Some 10"
    "shm_params (fst (shm_submit ?w)) ''FPS'' = Some 30"
    "map_of (shm_sliders (fst (shm_submit ?w))) ''Mass'' = Some 1"
    using wf by (simp_all add: shm_example_sliders shm_example_accepted)
  from W shm_example_keys(1) obtain fps duration where
    f: "shm_params (fst (shm_submit ?w)) ''FPS'' = Some fps"
      "shm_params (fst (shm_submit ?w)) ''Duration'' = Some duration"
      "snd (shm_submit ?w) = (if py_int (fps * duration) \<le> 0 then Some ValueError else None)"
    by blast
  have "fps = 30" using f(1) w(6) by (metis option.inject)
  moreover have "duration = 10" using f(2) w(5) by (metis option.inject)
  ultimately have "snd (shm_submit ?w) = (if py_int (30 * 10) \<le> 0 then Some ValueError else None)"
    using f(3) by (simp only:)
  then have we: "snd (shm_submit ?w) = None"
    by (simp add: py_int_def)
  from W we have wa: "\<not> shm_animating (fst (shm_submit ?w))" by blast
  from U have uf: "\<forall>(k, v) \<in> set (shm_sliders ?u).
      shm_params (fst (shm_submit ?u)) k = shm_accepted k v
      \<and> map_of (shm_sliders (fst (shm_submit ?u))) k = shm_accepted k v"
    by blast
  have u: "shm_params (fst (shm_submit ?u)) ''Mass'' = Some 1"
    "shm_params (fst (shm_submit ?u)) ''Duration'' = Some (1 / 2)"
    "shm_params (fst (shm_submit ?u)) ''FPS'' = Some 1"
    using uf by (simp_all add: shm_example_sliders shm_example_accepted)
  from U shm_example_keys(2) obtain fps' duration' where
    g: "shm_params (fst (shm_submit ?u)) ''FPS'' = Some fps'"
      "shm_params (fst (shm_submit ?u)) ''Duration'' = Some duration'"
      "snd (shm_submit ?u) = (if py_int (fps' * duration') \<le> 0 then Some ValueError else None)"
    by blast
  have "fps' = 1" using g(1) u(3) by (metis option.inject)
  moreover have "duration' = 1 / 2" using g(2) u(2) by (metis option.inject)
  ultimately have "snd (shm_submit ?u) = (if py_int (1 * (1 / 2)) \<le> 0 then Some ValueError else None)"
    using g(3) by (simp only:)
  then have ue: "snd (shm_submit ?u) = Some ValueError"
    by (simp add: py_int_def)
  from U ue have "shm_animating (fst (shm_submit ?u)) = shm_animating ?u" by simp
  then have ua: "shm_animating (fst (shm_submit ?u))" using an(2) by simp
  show ?thesis using dw du w we an(1) wa u ue ua by (intro conjI)
qed

end
